theory Spec2Isabelle
  imports Complex_Main "HOL-Library.Sublist"
begin

section \<open>Values decoded from JSON\<close>

text \<open>
  The code is read as Python 3. The test file is read with \<^verbatim>\<open>json.load\<close> and every
  response with \<^verbatim>\<open>r.json()\<close>, so all data the engine touches are Python values decoded from JSON: \<^verbatim>\<open>None\<close>, \<^verbatim>\<open>bool\<close>, \<^verbatim>\<open>int\<close>,
  \<^verbatim>\<open>float\<close>, \<^verbatim>\<open>str\<close>, \<^verbatim>\<open>list\<close> and \<^verbatim>\<open>dict\<close> with \<^verbatim>\<open>str\<close> keys. A dict is an association list
  in insertion order (the order \<^verbatim>\<open>for key in d\<close> follows); the decoder keeps one entry per
  key. A float is represented by the rational number it denotes; rounding of float
  arithmetic and the values \<^verbatim>\<open>nan\<close> and \<^verbatim>\<open>inf\<close> are not modelled. A string is a list of
  characters of HOL, which are bytes: text within ASCII is itself, text beyond it is its
  encoding. What Python does to characters beyond ASCII is left to the environment.
\<close>

datatype json =
    JNull
  | JBool bool
  | JInt int
  | JFloat rat
  | JStr string
  | JArr "json list"
  | JObj "(string \<times> json) list"

text \<open>The exceptions that the code raises, catches or lets pass.\<close>

datatype exn =
    KeyError json
  | IndexError
  | TypeError
  | AttributeError
  | ValueError
  | ConnectionError
  | ZeroDivisionError
  | TestFailedException string

definition bind :: "exn + 'a \<Rightarrow> ('a \<Rightarrow> exn + 'b) \<Rightarrow> exn + 'b" where
  "bind m f = (case m of Inl e \<Rightarrow> Inl e | Inr x \<Rightarrow> f x)"

subsection \<open>The operations of Python that the code applies to these values\<close>

text \<open>Sequence indexing \<^verbatim>\<open>xs[i]\<close>; the index \<open>- 1\<close> is the last position.\<close>

definition index :: "'a list \<Rightarrow> int \<Rightarrow> exn + 'a" where
  "index xs i =
     (if 0 \<le> i \<and> i < int (length xs) then Inr (xs ! nat i)
      else if i < 0 \<and> 0 \<le> int (length xs) + i then Inr (xs ! nat (int (length xs) + i))
      else Inl IndexError)"

text \<open>
  Subscription \<^verbatim>\<open>c[k]\<close>. A dict decoded from JSON has only \<^verbatim>\<open>str\<close> keys, so a hashable key of
  another type is never found; a list or dict used as a key is unhashable.
\<close>

fun getitem :: "json \<Rightarrow> json \<Rightarrow> exn + json" where
  "getitem (JObj kvs) (JStr k) =
     (case map_of kvs k of None \<Rightarrow> Inl (KeyError (JStr k)) | Some v \<Rightarrow> Inr v)"
| "getitem (JObj kvs) (JArr ks) = Inl TypeError"
| "getitem (JObj kvs) (JObj ks) = Inl TypeError"
| "getitem (JObj kvs) k = Inl (KeyError k)"
| "getitem (JArr xs) (JInt i) = index xs i"
| "getitem (JArr xs) (JBool b) = index xs (if b then 1 else 0)"
| "getitem (JArr xs) k = Inl TypeError"
| "getitem (JStr s) (JInt i) = bind (index s i) (\<lambda>c. Inr (JStr [c]))"
| "getitem (JStr s) (JBool b) = bind (index s (if b then 1 else 0)) (\<lambda>c. Inr (JStr [c]))"
| "getitem (JStr s) k = Inl TypeError"
| "getitem c k = Inl TypeError"

text \<open>Membership \<^verbatim>\<open>k in c\<close> for a \<^verbatim>\<open>str\<close> \<^verbatim>\<open>k\<close>.\<close>

fun contains :: "string \<Rightarrow> json \<Rightarrow> exn + bool" where
  "contains k (JObj kvs) = Inr (k \<in> set (map fst kvs))"
| "contains k (JArr xs) = Inr (JStr k \<in> set xs)"
| "contains k (JStr s) = Inr (sublist k s)"
| "contains k c = Inl TypeError"

text \<open>The items that \<^verbatim>\<open>for x in c\<close> visits.\<close>

fun iter :: "json \<Rightarrow> exn + json list" where
  "iter (JObj kvs) = Inr (map (\<lambda>kv. JStr (fst kv)) kvs)"
| "iter (JArr xs) = Inr xs"
| "iter (JStr s) = Inr (map (\<lambda>c. JStr [c]) s)"
| "iter c = Inl TypeError"

text \<open>\<^verbatim>\<open>base_url + v\<close> with a \<^verbatim>\<open>str\<close> on the left.\<close>

fun add_str :: "string \<Rightarrow> json \<Rightarrow> exn + string" where
  "add_str b (JStr s) = Inr (b @ s)"
| "add_str b v = Inl TypeError"

text \<open>
  Upper case within ASCII: the letters a to z are mapped, every other character is left
  as it is. This is what \<^verbatim>\<open>str.upper\<close> does to a text of ASCII characters.
\<close>

definition upper_char :: "char \<Rightarrow> char" where
  "upper_char c =
     (let n = (of_char c :: nat) in if 97 \<le> n \<and> n \<le> 122 then char_of (n - 32) else c)"

definition ascii :: "char \<Rightarrow> bool" where
  "ascii c = ((of_char c :: nat) < 128)"

text \<open>
  \<^verbatim>\<open>a == b\<close> on decoded values. \<^verbatim>\<open>bool\<close> is a subclass of \<^verbatim>\<open>int\<close>: \<^verbatim>\<open>True\<close> and \<^verbatim>\<open>False\<close>
  are the numbers 1 and 0, and numbers compare by value across \<^verbatim>\<open>bool\<close>, \<^verbatim>\<open>int\<close> and
  \<^verbatim>\<open>float\<close>. Lists compare element by element; dicts are equal when they have the same
  number of entries and every key of the left one is in the right one with an equal value.
\<close>

fun number :: "json \<Rightarrow> rat option" where
  "number (JBool b) = Some (if b then 1 else 0)"
| "number (JInt i) = Some (of_int i)"
| "number (JFloat r) = Some r"
| "number v = None"

function py_eq :: "json \<Rightarrow> json \<Rightarrow> bool" where
  "py_eq (JArr xs) (JArr ys) = (length xs = length ys \<and> list_all2 py_eq xs ys)"
| "py_eq (JObj a) (JObj b) =
     (length a = length b \<and>
      list_all (\<lambda>kv. case map_of b (fst kv) of None \<Rightarrow> False | Some w \<Rightarrow> py_eq (snd kv) w) a)"
| "py_eq (JStr s) (JStr t) = (s = t)"
| "py_eq JNull JNull = True"
| "py_eq (JArr xs) JNull = False"
| "py_eq (JArr xs) (JBool b) = False"
| "py_eq (JArr xs) (JInt i) = False"
| "py_eq (JArr xs) (JFloat r) = False"
| "py_eq (JArr xs) (JStr s) = False"
| "py_eq (JArr xs) (JObj b) = False"
| "py_eq (JObj a) JNull = False"
| "py_eq (JObj a) (JBool b) = False"
| "py_eq (JObj a) (JInt i) = False"
| "py_eq (JObj a) (JFloat r) = False"
| "py_eq (JObj a) (JStr s) = False"
| "py_eq (JObj a) (JArr ys) = False"
| "py_eq (JStr s) JNull = False"
| "py_eq (JStr s) (JBool b) = False"
| "py_eq (JStr s) (JInt i) = False"
| "py_eq (JStr s) (JFloat r) = False"
| "py_eq (JStr s) (JArr ys) = False"
| "py_eq (JStr s) (JObj b) = False"
| "py_eq JNull (JBool b) = False"
| "py_eq JNull (JInt i) = False"
| "py_eq JNull (JFloat r) = False"
| "py_eq JNull (JStr s) = False"
| "py_eq JNull (JArr ys) = False"
| "py_eq JNull (JObj b) = False"
| "py_eq (JBool c) v = (case number v of None \<Rightarrow> False | Some y \<Rightarrow> (if c then 1 else 0) = y)"
| "py_eq (JInt i) v = (case number v of None \<Rightarrow> False | Some y \<Rightarrow> of_int i = y)"
| "py_eq (JFloat r) v = (case number v of None \<Rightarrow> False | Some y \<Rightarrow> r = y)"
  by pat_completeness auto
termination
proof (relation "measure (\<lambda>(a, b). size a)")
  show "wf (measure (\<lambda>(a, b). size a))" by simp
next
  fix xs ys :: "json list" and x y :: json
  assume "x \<in> set xs"
  then have "size x < Suc (size_list size xs)"
    by (induction xs) auto
  then show "((x, y), (JArr xs, JArr ys)) \<in> measure (\<lambda>(a, b). size a)" by simp
next
  fix a b :: "(string \<times> json) list" and kv :: "string \<times> json" and w :: json
  assume "kv \<in> set a"
  then have "size (snd kv) < Suc (size_list (size_prod (\<lambda>x. 0) size) a)"
    by (induction a) (auto simp: less_Suc_eq)
  then show "((snd kv, w), (JObj a, JObj b)) \<in> measure (\<lambda>(a, b). size a)"
    by simp
qed

text \<open>
  \<^verbatim>\<open>isinstance(val, t)\<close> for the three classes the type check uses. A \<^verbatim>\<open>bool\<close> is an
  instance of \<^verbatim>\<open>int\<close>.
\<close>

datatype pytype = StrT | IntT | FloatT

fun isinstance :: "json \<Rightarrow> pytype \<Rightarrow> bool" where
  "isinstance (JStr s) StrT = True"
| "isinstance (JInt i) IntT = True"
| "isinstance (JBool b) IntT = True"
| "isinstance (JFloat r) FloatT = True"
| "isinstance v t = False"

text \<open>\<^verbatim>\<open>str(t)\<close> of a class and \<^verbatim>\<open>str(type(v))\<close> of a value.\<close>

fun class_name :: "pytype \<Rightarrow> string" where
  "class_name StrT = ''str''"
| "class_name IntT = ''int''"
| "class_name FloatT = ''float''"

fun type_name :: "json \<Rightarrow> string" where
  "type_name JNull = ''NoneType''"
| "type_name (JBool b) = ''bool''"
| "type_name (JInt i) = ''int''"
| "type_name (JFloat r) = ''float''"
| "type_name (JStr s) = ''str''"
| "type_name (JArr xs) = ''list''"
| "type_name (JObj kvs) = ''dict''"

definition str_class :: "string \<Rightarrow> string" where
  "str_class n = ''<class '' @ [CHR 0x27] @ n @ [CHR 0x27] @ ''>''"

text \<open>Decimal notation of an integer, as \<^verbatim>\<open>str\<close> and \<^verbatim>\<open>%i\<close> print it.\<close>

fun show_nat :: "nat \<Rightarrow> string" where
  "show_nat n =
     (if n < 10 then [char_of (48 + n)] else show_nat (n div 10) @ [char_of (48 + n mod 10)])"

definition show_int :: "int \<Rightarrow> string" where
  "show_int i = (if i < 0 then CHR ''-'' # show_nat (nat (- i)) else show_nat (nat i))"

section \<open>The environment of a run\<close>

text \<open>
  What the engine gets from outside the repository is a parameter of the model:
  the clock (\<^verbatim>\<open>time.time\<close>), the HTTP library with the server behind it, the text that
  Python's formatting produces for floats, lists and dicts, and the upper case that
  \<^verbatim>\<open>str.upper\<close> gives to a text with characters beyond ASCII. The k-th reading of the clock
  is \<open>clock env k\<close>. The answer to a request may depend on how many requests were sent
  before.
\<close>

datatype request = Get json | Post json "json option"

text \<open>
  The body of \<^verbatim>\<open>requests.post(url, json=p)\<close>. The keyword \<^verbatim>\<open>json\<close> defaults to \<^verbatim>\<open>None\<close>, and the
  library makes a body of it only when it is not \<^verbatim>\<open>None\<close>: a payload \<^verbatim>\<open>null\<close> is sent as
  no body, like no payload at all.
\<close>

fun json_body :: "json \<Rightarrow> json option" where
  "json_body JNull = None"
| "json_body p = Some p"

text \<open>
  A call of \<^verbatim>\<open>requests.get\<close> or \<^verbatim>\<open>requests.post\<close> either raises, or returns a response
  whose body \<^verbatim>\<open>r.json()\<close> decodes (\<open>Some\<close>) or rejects with a \<^verbatim>\<open>ValueError\<close> (\<open>None\<close>).
\<close>

datatype reply = Raises exn | Response "json option"

record env =
  clock :: "nat \<Rightarrow> rat"
  server :: "nat \<Rightarrow> request \<Rightarrow> reply"
  repr :: "json \<Rightarrow> string"
  unicode_upper :: "string \<Rightarrow> string"
  fmt_float :: "nat \<Rightarrow> rat \<Rightarrow> string"
  round_float :: "nat \<Rightarrow> rat \<Rightarrow> rat"
  dumps :: "json \<Rightarrow> string"

text \<open>
  The state outside the object: the number of readings of the clock so far, and the calls
  of the HTTP library so far, in order.
\<close>

record world =
  now :: nat
  sent :: "request list"

definition time :: "env \<Rightarrow> world \<Rightarrow> rat \<times> world" where
  "time env w = (clock env (now w), w\<lparr>now := Suc (now w)\<rparr>)"

definition http :: "env \<Rightarrow> request \<Rightarrow> world \<Rightarrow> reply \<times> world" where
  "http env rq w = (server env (length (sent w)) rq, w\<lparr>sent := sent w @ [rq]\<rparr>)"

text \<open>
  \<^verbatim>\<open>str(v)\<close>: a string is itself, \<^verbatim>\<open>None\<close>, the booleans and the integers have fixed text,
  and a float, list or dict prints as its \<^verbatim>\<open>repr\<close>.
\<close>

fun str :: "env \<Rightarrow> json \<Rightarrow> string" where
  "str env (JStr s) = s"
| "str env JNull = ''None''"
| "str env (JBool b) = (if b then ''True'' else ''False'')"
| "str env (JInt i) = show_int i"
| "str env v = repr env v"

text \<open>
  \<^verbatim>\<open>s.upper()\<close> of a string, and \<^verbatim>\<open>v.upper()\<close> of a decoded value: only \<^verbatim>\<open>str\<close> has the
  method.
\<close>

definition upper_text :: "env \<Rightarrow> string \<Rightarrow> string" where
  "upper_text env s = (if list_all ascii s then map upper_char s else unicode_upper env s)"

fun upper :: "env \<Rightarrow> json \<Rightarrow> exn + string" where
  "upper env (JStr s) = Inr (upper_text env s)"
| "upper env v = Inl AttributeError"

definition quoted :: "string \<Rightarrow> string" where
  "quoted s = [CHR 0x27] @ s @ [CHR 0x27]"

section \<open>The execution engine (src/apicheck/apicheck.py)\<close>

datatype status = PASSED | FAILED

record test_result =
  name :: json
  status :: status
  elapsed_time :: rat
  error_msg :: "string option"

text \<open>
  The fields of an \<^verbatim>\<open>APICheck\<close> object. \<^verbatim>\<open>results\<close> is created by \<^verbatim>\<open>run_all_tests\<close>; the
  record describes an object on which it has been called, or is being called.
\<close>

record apicheck =
  base_url :: string
  tests :: json
  passed :: nat
  failed :: nat
  total_elapsed_time :: rat
  results :: "test_result list"

subsection \<open>\<^verbatim>\<open>__run_test\<close>: the request\<close>

text \<open>
  The statements of the first \<^verbatim>\<open>try\<close> block up to the call of the HTTP library: they
  read the required fields and choose the request.
\<close>

definition dispatch :: "env \<Rightarrow> json \<Rightarrow> json \<Rightarrow> json \<Rightarrow> exn + request" where
  "dispatch env test url method =
     bind (upper env method) (\<lambda>m.
       if m = ''GET'' then Inr (Get url)
       else if m = ''POST'' then
         bind (contains ''payload'' test) (\<lambda>has.
           if has then bind (getitem test (JStr ''payload'')) (\<lambda>p. Inr (Post url (json_body p)))
           else Inr (Post url None))
       else Inl (TestFailedException ''Malformed test. Allowed methods are GET and POST''))"

definition build_request :: "env \<Rightarrow> string \<Rightarrow> json \<Rightarrow> exn + request" where
  "build_request env base test =
     bind (getitem test (JStr ''name'')) (\<lambda>n.
     bind (getitem test (JStr ''url'')) (\<lambda>u.
     bind (add_str base u) (\<lambda>url.
     bind (getitem test (JStr ''method'')) (\<lambda>method.
       dispatch env test (JStr url) method))))"

text \<open>The two handlers of the first \<^verbatim>\<open>try\<close> block.\<close>

fun request_handler :: "env \<Rightarrow> exn \<Rightarrow> exn" where
  "request_handler env (KeyError k) =
     TestFailedException
       (''Malformed test. Must provide '' @ quoted (str env k) @ '' in tests file.'')"
| "request_handler env ValueError = TestFailedException ''Could not decode JSON from response.''"
| "request_handler env e = e"

text \<open>The call of the HTTP library and \<^verbatim>\<open>resp = r.json()\<close>, under the same handlers.\<close>

definition call :: "env \<Rightarrow> exn + request \<Rightarrow> world \<Rightarrow> (exn + json) \<times> world" where
  "call env built w =
     (case built of
        Inl e \<Rightarrow> (Inl (request_handler env e), w)
      | Inr rq \<Rightarrow>
          (case http env rq w of
             (Raises e, w') \<Rightarrow> (Inl (request_handler env e), w')
           | (Response None, w') \<Rightarrow> (Inl (request_handler env ValueError), w')
           | (Response (Some resp), w') \<Rightarrow> (Inr resp, w')))"

definition get_response :: "env \<Rightarrow> string \<Rightarrow> json \<Rightarrow> world \<Rightarrow> (exn + json) \<times> world" where
  "get_response env base test w = call env (build_request env base test) w"

subsection \<open>\<^verbatim>\<open>__run_test\<close>: the checks\<close>

definition value_error_message :: "env \<Rightarrow> json \<Rightarrow> json \<Rightarrow> json \<Rightarrow> string" where
  "value_error_message env exp_val key actual =
     ''Expected value '' @ quoted (str env exp_val) @ '' at key '' @ quoted (str env key)
       @ '' but got '' @ quoted (str env actual) @ ''.''"

text \<open>The loop over \<^verbatim>\<open>test["expected_response_values"]\<close>, here \<open>ev\<close>.\<close>

fun check_values :: "env \<Rightarrow> json \<Rightarrow> json \<Rightarrow> json list \<Rightarrow> exn + unit" where
  "check_values env ev resp [] = Inr ()"
| "check_values env ev resp (key # keys) =
     (case getitem ev key of
        Inl e \<Rightarrow> Inl e
      | Inr exp_val \<Rightarrow>
          (case getitem resp key of
             Inl e \<Rightarrow> Inl e
           | Inr actual \<Rightarrow>
               if \<not> py_eq exp_val actual
               then Inl (TestFailedException (value_error_message env exp_val key actual))
               else check_values env ev resp keys))"

definition expected_values :: "env \<Rightarrow> json \<Rightarrow> json \<Rightarrow> exn + unit" where
  "expected_values env test resp =
     bind (contains ''expected_response_values'' test) (\<lambda>has.
       if has
       then bind (getitem test (JStr ''expected_response_values'')) (\<lambda>ev.
            bind (iter ev) (\<lambda>keys. check_values env ev resp keys))
       else Inr ())"

definition get_expected_type_error_message :: "env \<Rightarrow> json \<Rightarrow> json \<Rightarrow> pytype \<Rightarrow> string" where
  "get_expected_type_error_message env key val expected_type =
     ''Invalid type at key '' @ quoted (str env key) @ ''. Expected ''
       @ quoted (str_class (class_name expected_type)) @ '' got ''
       @ quoted (str_class (type_name val)) @ ''.''"

definition test_expected_type :: "env \<Rightarrow> json \<Rightarrow> json \<Rightarrow> pytype \<Rightarrow> exn + unit" where
  "test_expected_type env key val exp_type =
     (if \<not> isinstance val exp_type
      then Inl (TestFailedException (get_expected_type_error_message env key val exp_type))
      else Inr ())"

definition malformed_type_message :: string where
  "malformed_type_message =
     ''Malformed test. Expected types allowed: '' @ quoted ''str'' @ '', '' @ quoted ''int''
       @ '', '' @ quoted ''float''"

text \<open>The \<^verbatim>\<open>if\<close>/\<^verbatim>\<open>elif\<close> chain on the tag.\<close>

definition check_type :: "env \<Rightarrow> json \<Rightarrow> json \<Rightarrow> json \<Rightarrow> exn + unit" where
  "check_type env key exp_type val =
     (if exp_type = JStr ''string'' then test_expected_type env key val StrT
      else if exp_type = JStr ''int'' then test_expected_type env key val IntT
      else if exp_type = JStr ''float'' then test_expected_type env key val FloatT
      else Inl (TestFailedException malformed_type_message))"

text \<open>The loop over \<^verbatim>\<open>test["expected_response_types"]\<close>, here \<open>et\<close>.\<close>

fun check_types :: "env \<Rightarrow> json \<Rightarrow> json \<Rightarrow> json list \<Rightarrow> exn + unit" where
  "check_types env et resp [] = Inr ()"
| "check_types env et resp (key # keys) =
     (case getitem et key of
        Inl e \<Rightarrow> Inl e
      | Inr exp_type \<Rightarrow>
          (case getitem resp key of
             Inl e \<Rightarrow> Inl e
           | Inr val \<Rightarrow>
               (case check_type env key exp_type val of
                  Inl e \<Rightarrow> Inl e
                | Inr u \<Rightarrow> check_types env et resp keys)))"

definition expected_types :: "env \<Rightarrow> json \<Rightarrow> json \<Rightarrow> exn + unit" where
  "expected_types env test resp =
     bind (contains ''expected_response_types'' test) (\<lambda>has.
       if has
       then bind (getitem test (JStr ''expected_response_types'')) (\<lambda>et.
            bind (iter et) (\<lambda>keys. check_types env et resp keys))
       else Inr ())"

text \<open>The body of the second \<^verbatim>\<open>try\<close> block, and its handler.\<close>

definition run_checks :: "env \<Rightarrow> json \<Rightarrow> json \<Rightarrow> exn + unit" where
  "run_checks env test resp =
     bind (expected_values env test resp) (\<lambda>u. expected_types env test resp)"

fun checks_handler :: "env \<Rightarrow> exn \<Rightarrow> exn" where
  "checks_handler env (KeyError k) =
     TestFailedException (''Expected key '' @ quoted (str env k) @ '' not found.'')"
| "checks_handler env e = e"

definition checked :: "env \<Rightarrow> exn + unit \<Rightarrow> exn + unit" where
  "checked env r = (case r of Inl e \<Rightarrow> Inl (checks_handler env e) | Inr u \<Rightarrow> Inr ())"

definition run_test :: "env \<Rightarrow> string \<Rightarrow> json \<Rightarrow> world \<Rightarrow> (exn + unit) \<times> world" where
  "run_test env base test w =
     (case get_response env base test w of
        (Inl e, w') \<Rightarrow> (Inl e, w')
      | (Inr resp, w') \<Rightarrow> (checked env (run_checks env test resp), w'))"

subsection \<open>\<^verbatim>\<open>run_all_tests\<close>\<close>

text \<open>
  The name that the \<^verbatim>\<open>except\<close> branch records: \<^verbatim>\<open>test["name"]\<close>, or the sentinel when that
  raises \<^verbatim>\<open>KeyError\<close>.
\<close>

definition test_name :: "json \<Rightarrow> exn + json" where
  "test_name test =
     (case getitem test (JStr ''name'') of
        Inl (KeyError k) \<Rightarrow> Inr (JStr ''ERROR: NAME NOT PROVIDED'')
      | Inl e \<Rightarrow> Inl e
      | Inr n \<Rightarrow> Inr n)"

text \<open>
  What follows \<^verbatim>\<open>self.__run_test(test)\<close> in the body of the loop, given what the call
  returned or raised and the time at which the test started: the result is appended and
  a counter incremented, or the exception leaves the loop.
\<close>

definition record_result ::
  "env \<Rightarrow> (json \<Rightarrow> exn + json) \<Rightarrow> json \<Rightarrow> rat \<Rightarrow> exn + unit \<Rightarrow> apicheck \<Rightarrow> world
     \<Rightarrow> (exn + apicheck) \<times> world" where
  "record_result env failed_name test test_start_time r a w =
     (case r of
        Inr u \<Rightarrow>
          (let (t, w') = time env w in
           (case getitem test (JStr ''name'') of
              Inl e \<Rightarrow> (Inl e, w')
            | Inr n \<Rightarrow>
                (Inr (a\<lparr>results := results a @
                          [\<lparr>name = n, status = PASSED, elapsed_time = t - test_start_time,
                            error_msg = None\<rparr>],
                        passed := passed a + 1\<rparr>), w')))
      | Inl (TestFailedException msg) \<Rightarrow>
          (let (t, w') = time env w in
           (case failed_name test of
              Inl e \<Rightarrow> (Inl e, w')
            | Inr n \<Rightarrow>
                (Inr (a\<lparr>results := results a @
                          [\<lparr>name = n, status = FAILED, elapsed_time = t - test_start_time,
                            error_msg = Some msg\<rparr>],
                        failed := failed a + 1\<rparr>), w')))
      | Inl e \<Rightarrow> (Inl e, w))"

text \<open>The body of the loop of \<^verbatim>\<open>run_all_tests\<close>.\<close>

definition run_case :: "env \<Rightarrow> json \<Rightarrow> apicheck \<Rightarrow> world \<Rightarrow> (exn + apicheck) \<times> world" where
  "run_case env test a w =
     (let (test_start_time, w1) = time env w;
          (r, w2) = run_test env (base_url a) test w1
      in record_result env test_name test test_start_time r a w2)"

text \<open>
  The outcome of a method is the exception that left it, if any, with the object and the
  world as the method left them.
\<close>

fun run_loop :: "env \<Rightarrow> json list \<Rightarrow> apicheck \<Rightarrow> world \<Rightarrow> exn option \<times> apicheck \<times> world" where
  "run_loop env [] a w = (None, a, w)"
| "run_loop env (test # rest) a w =
     (case run_case env test a w of
        (Inl e, w') \<Rightarrow> (Some e, a, w')
      | (Inr a', w') \<Rightarrow> run_loop env rest a' w')"

definition finish :: "env \<Rightarrow> rat \<Rightarrow> exn option \<times> apicheck \<times> world \<Rightarrow> exn option \<times> apicheck \<times> world" where
  "finish env total_start_time r =
     (case r of
        (Some e, a, w) \<Rightarrow> (Some e, a, w)
      | (None, a, w) \<Rightarrow>
          (let (t, w') = time env w
           in (None, a\<lparr>total_elapsed_time := t - total_start_time\<rparr>, w')))"

definition run_all_tests :: "env \<Rightarrow> apicheck \<Rightarrow> world \<Rightarrow> exn option \<times> apicheck \<times> world" where
  "run_all_tests env a w =
     (let a0 = a\<lparr>results := []\<rparr>;
          (total_start_time, w1) = time env w;
          a1 = a0\<lparr>passed := 0, failed := 0\<rparr>
      in (case iter (tests a1) of
            Inl e \<Rightarrow> (Some e, a1, w1)
          | Inr ts \<Rightarrow> finish env total_start_time (run_loop env ts a1 w1)))"

section \<open>The reporter\<close>

text \<open>
  \<^verbatim>\<open>__output_results\<close> writes to the stream it is given and, in its \<^verbatim>\<open>KeyError\<close> handler,
  prints to the standard output. The two are kept apart here; \<^verbatim>\<open>print_results\<close> passes
  the standard output as the stream, \<^verbatim>\<open>write_results_to_file\<close> a file it has opened.
\<close>

record io =
  outstream :: string
  stdout :: string

definition nl :: string where
  "nl = [CHR 0x0A]"

definition tab :: string where
  "tab = [CHR 0x09]"

fun status_text :: "status \<Rightarrow> string" where
  "status_text PASSED = ''PASSED''"
| "status_text FAILED = ''FAILED''"

text \<open>A result as the dict that \<^verbatim>\<open>run_all_tests\<close> appended.\<close>

definition result_dict :: "test_result \<Rightarrow> json" where
  "result_dict res =
     JObj ([(''name'', name res), (''status'', JStr (status_text (status res))),
            (''elapsed_time'', JFloat (elapsed_time res))]
           @ (case error_msg res of None \<Rightarrow> [] | Some m \<Rightarrow> [(''error_msg'', JStr m)]))"

definition res_json :: "rat \<Rightarrow> apicheck \<Rightarrow> json" where
  "res_json success_percent a =
     JObj [(''summary'',
              JObj [(''passed'', JInt (int (passed a))),
                    (''failed'', JInt (int (failed a))),
                    (''success_percentage'', JFloat success_percent),
                    (''total_elapsed_time'', JFloat (total_elapsed_time a))]),
           (''test_results'', JArr (map result_dict (results a)))]"

text \<open>The loop of the text format; it stops where \<^verbatim>\<open>res["error_msg"]\<close> is missing.\<close>

fun write_results :: "env \<Rightarrow> test_result list \<Rightarrow> string \<Rightarrow> exn option \<times> string" where
  "write_results env [] out = (None, out)"
| "write_results env (res # rest) out =
     (let out1 = out @ str env (name res) @ nl;
          out2 = out1 @ tab @ ''Status:'' @ status_text (status res) @ nl;
          out3 = out2 @ tab @ ''Elapsed time: '' @ fmt_float env 6 (elapsed_time res) @ nl
      in if status res = FAILED
         then (case error_msg res of
                 None \<Rightarrow> (Some (KeyError (JStr ''error_msg'')), out3)
               | Some m \<Rightarrow> write_results env rest (out3 @ tab @ ''Error message: '' @ m @ nl))
         else write_results env rest out3)"

definition summary_text :: "env \<Rightarrow> rat \<Rightarrow> apicheck \<Rightarrow> string" where
  "summary_text env success_percent a =
     ''***'' @ nl @
     ''TEST SUMMARY'' @ nl @
     ''------------'' @ nl @
     ''Tests passed: '' @ show_nat (passed a) @ nl @
     ''Tests failed: '' @ show_nat (failed a) @ nl @
     ''Success percentage : '' @ fmt_float env 2 (round_float env 2 success_percent) @ ''%'' @ nl @
     ''Total elapsed time: '' @ fmt_float env 3 (total_elapsed_time a) @ '' seconds'' @ nl @
     ''***'' @ nl"

text \<open>
  The part of \<^verbatim>\<open>__output_results\<close> after \<^verbatim>\<open>success_percent\<close> has been computed, with the
  \<^verbatim>\<open>KeyError\<close> handler, which prints \<^verbatim>\<open>str(e)\<close>: the key between quotes. The method assigns
  to no field of the object.
\<close>

definition render :: "env \<Rightarrow> string \<Rightarrow> rat \<Rightarrow> apicheck \<Rightarrow> io \<Rightarrow> exn option \<times> apicheck \<times> io" where
  "render env format success_percent a s =
     (if upper_text env format = ''JSON''
      then (None, a, s\<lparr>outstream := outstream s @ dumps env (res_json success_percent a)\<rparr>)
      else if upper_text env format = ''TEXT''
      then (case write_results env (results a)
                   (outstream s @ summary_text env success_percent a) of
              (None, out) \<Rightarrow> (None, a, s\<lparr>outstream := out\<rparr>)
            | (Some (KeyError k), out) \<Rightarrow>
                (None, a, s\<lparr>outstream := out, stdout := stdout s @ quoted (str env k) @ nl\<rparr>)
            | (Some e, out) \<Rightarrow> (Some e, a, s\<lparr>outstream := out\<rparr>))
      else (None, a, s))"

definition success_percent :: "apicheck \<Rightarrow> rat" where
  "success_percent a =
     (let total_tests = passed a + failed a;
          total_tests = (if total_tests > 0 then total_tests else 1)
      in (of_nat (passed a) / of_nat total_tests) * 100)"

definition output_results :: "env \<Rightarrow> string \<Rightarrow> apicheck \<Rightarrow> io \<Rightarrow> exn option \<times> apicheck \<times> io" where
  "output_results env format a s = render env format (success_percent a) a s"

section \<open>The older copy of the module (src/apicheck.py)\<close>

text \<open>
  The file \<^verbatim>\<open>src/apicheck.py\<close> is an earlier copy of the same class, without the base URL.
  It differs from the module above in four places, modelled here under the names of the
  module with the suffix \<open>_legacy\<close>; everything else is shared.
\<close>

text \<open>The URL is \<^verbatim>\<open>test["url"]\<close> itself, handed to the HTTP library as it is.\<close>

definition build_request_legacy :: "env \<Rightarrow> json \<Rightarrow> exn + request" where
  "build_request_legacy env test =
     bind (getitem test (JStr ''name'')) (\<lambda>n.
     bind (getitem test (JStr ''url'')) (\<lambda>url.
     bind (getitem test (JStr ''method'')) (\<lambda>method.
       dispatch env test url method)))"

text \<open>
  The type check reads \<^verbatim>\<open>resp[key]\<close> only under a known tag, and on a mismatch evaluates
  \<^verbatim>\<open>self.get_type_error_message\<close>. The class defines \<^verbatim>\<open>__get_type_error_message\<close>, which
  Python stores under the name \<^verbatim>\<open>_APICheck__get_type_error_message\<close>; the attribute that is
  looked up does not exist, and the lookup raises \<^verbatim>\<open>AttributeError\<close>. The message for an
  unknown tag contains the line continuation's indentation: seven tabs and two spaces.
\<close>

definition test_expected_type_legacy :: "json \<Rightarrow> pytype \<Rightarrow> exn + unit" where
  "test_expected_type_legacy val exp_type =
     (if \<not> isinstance val exp_type then Inl AttributeError else Inr ())"

definition malformed_type_message_legacy :: string where
  "malformed_type_message_legacy =
     ''Malformed test. '' @ replicate 7 (CHR 0x09) @ ''  Expected types allowed: ''
       @ quoted ''str'' @ '', '' @ quoted ''int'' @ '', '' @ quoted ''float''"

definition check_type_legacy :: "json \<Rightarrow> json \<Rightarrow> json \<Rightarrow> exn + unit" where
  "check_type_legacy resp key exp_type =
     (if exp_type = JStr ''string''
      then bind (getitem resp key) (\<lambda>val. test_expected_type_legacy val StrT)
      else if exp_type = JStr ''int''
      then bind (getitem resp key) (\<lambda>val. test_expected_type_legacy val IntT)
      else if exp_type = JStr ''float''
      then bind (getitem resp key) (\<lambda>val. test_expected_type_legacy val FloatT)
      else Inl (TestFailedException malformed_type_message_legacy))"

fun check_types_legacy :: "json \<Rightarrow> json \<Rightarrow> json list \<Rightarrow> exn + unit" where
  "check_types_legacy et resp [] = Inr ()"
| "check_types_legacy et resp (key # keys) =
     (case getitem et key of
        Inl e \<Rightarrow> Inl e
      | Inr exp_type \<Rightarrow>
          (case check_type_legacy resp key exp_type of
             Inl e \<Rightarrow> Inl e
           | Inr u \<Rightarrow> check_types_legacy et resp keys))"

definition expected_types_legacy :: "json \<Rightarrow> json \<Rightarrow> exn + unit" where
  "expected_types_legacy test resp =
     bind (contains ''expected_response_types'' test) (\<lambda>has.
       if has
       then bind (getitem test (JStr ''expected_response_types'')) (\<lambda>et.
            bind (iter et) (\<lambda>keys. check_types_legacy et resp keys))
       else Inr ())"

definition run_checks_legacy :: "env \<Rightarrow> json \<Rightarrow> json \<Rightarrow> exn + unit" where
  "run_checks_legacy env test resp =
     bind (expected_values env test resp) (\<lambda>u. expected_types_legacy test resp)"

definition run_test_legacy :: "env \<Rightarrow> json \<Rightarrow> world \<Rightarrow> (exn + unit) \<times> world" where
  "run_test_legacy env test w =
     (case call env (build_request_legacy env test) w of
        (Inl e, w') \<Rightarrow> (Inl e, w')
      | (Inr resp, w') \<Rightarrow> (checked env (run_checks_legacy env test resp), w'))"

text \<open>The \<^verbatim>\<open>except\<close> branch of the loop reads \<^verbatim>\<open>test["name"]\<close> with no handler around it.\<close>

definition run_case_legacy :: "env \<Rightarrow> json \<Rightarrow> apicheck \<Rightarrow> world \<Rightarrow> (exn + apicheck) \<times> world" where
  "run_case_legacy env test a w =
     (let (test_start_time, w1) = time env w;
          (r, w2) = run_test_legacy env test w1
      in record_result env (\<lambda>t. getitem t (JStr ''name'')) test test_start_time r a w2)"

fun run_loop_legacy ::
  "env \<Rightarrow> json list \<Rightarrow> apicheck \<Rightarrow> world \<Rightarrow> exn option \<times> apicheck \<times> world" where
  "run_loop_legacy env [] a w = (None, a, w)"
| "run_loop_legacy env (test # rest) a w =
     (case run_case_legacy env test a w of
        (Inl e, w') \<Rightarrow> (Some e, a, w')
      | (Inr a', w') \<Rightarrow> run_loop_legacy env rest a' w')"

definition run_all_tests_legacy ::
  "env \<Rightarrow> apicheck \<Rightarrow> world \<Rightarrow> exn option \<times> apicheck \<times> world" where
  "run_all_tests_legacy env a w =
     (let a0 = a\<lparr>results := []\<rparr>;
          (total_start_time, w1) = time env w;
          a1 = a0\<lparr>passed := 0, failed := 0\<rparr>
      in (case iter (tests a1) of
            Inl e \<Rightarrow> (Some e, a1, w1)
          | Inr ts \<Rightarrow> finish env total_start_time (run_loop_legacy env ts a1 w1)))"

text \<open>
  The reporter computes \<^verbatim>\<open>success_percent = (self.passed/(self.passed+self.failed))*100\<close>
  with no test of the divisor. Python raises \<^verbatim>\<open>ZeroDivisionError\<close> there, which the
  \<^verbatim>\<open>KeyError\<close> handler lets pass.
\<close>

definition output_results_legacy ::
  "env \<Rightarrow> string \<Rightarrow> apicheck \<Rightarrow> io \<Rightarrow> exn option \<times> apicheck \<times> io" where
  "output_results_legacy env format a s =
     (if passed a + failed a = 0 then (Some ZeroDivisionError, a, s)
      else render env format ((of_nat (passed a) / of_nat (passed a + failed a)) * 100) a s)"

section \<open>Vocabulary of the properties\<close>

text \<open>Every result with status \<open>FAILED\<close> carries an error message.\<close>

definition has_messages :: "test_result list \<Rightarrow> bool" where
  "has_messages rs = list_all (\<lambda>r. status r = PASSED \<or> error_msg r \<noteq> None) rs"

text \<open>The result that the engine appends for a case that passed, and for one that failed.\<close>

definition passed_result :: "json \<Rightarrow> rat \<Rightarrow> test_result" where
  "passed_result n t = \<lparr>name = n, status = PASSED, elapsed_time = t, error_msg = None\<rparr>"

definition failed_result :: "json \<Rightarrow> rat \<Rightarrow> string \<Rightarrow> test_result" where
  "failed_result n t msg = \<lparr>name = n, status = FAILED, elapsed_time = t, error_msg = Some msg\<rparr>"

definition with_passed :: "apicheck \<Rightarrow> test_result \<Rightarrow> apicheck" where
  "with_passed a r = a\<lparr>results := results a @ [r], passed := passed a + 1\<rparr>"

definition with_failed :: "apicheck \<Rightarrow> test_result \<Rightarrow> apicheck" where
  "with_failed a r = a\<lparr>results := results a @ [r], failed := failed a + 1\<rparr>"

text \<open>The object as \<^verbatim>\<open>run_all_tests\<close> makes it before the first case.\<close>

definition reset :: "apicheck \<Rightarrow> apicheck" where
  "reset a = a\<lparr>results := [], passed := 0, failed := 0\<rparr>"

text \<open>One more result, one counter incremented, everything else as before.\<close>

definition extends :: "apicheck \<Rightarrow> json \<Rightarrow> apicheck \<Rightarrow> bool" where
  "extends a test a' =
     (\<exists>r. results a' = results a @ [r] \<and> test_name test = Inr (name r)
        \<and> (status r = PASSED \<or> error_msg r \<noteq> None)
        \<and> passed a' = passed a + (if status r = PASSED then 1 else 0)
        \<and> failed a' = failed a + (if status r = FAILED then 1 else 0))"

text \<open>What a completed loop over the cases \<open>ts\<close> has added to the object.\<close>

definition tally :: "apicheck \<Rightarrow> json list \<Rightarrow> apicheck \<Rightarrow> bool" where
  "tally a ts a' =
     (\<exists>rs. results a' = results a @ rs \<and> map (\<lambda>r. Inr (name r)) rs = map test_name ts
        \<and> has_messages rs
        \<and> passed a' = passed a + length (filter (\<lambda>r. status r = PASSED) rs)
        \<and> failed a' = failed a + length (filter (\<lambda>r. status r = FAILED) rs))"

text \<open>Comparison after \<open>upper\<close> is comparison up to the case of the letters a to z.\<close>

definition same_letter :: "char \<Rightarrow> char \<Rightarrow> bool" where
  "same_letter c d = (c = d \<or> (of_char c :: nat) = of_char d + 32)"

definition capital :: "char \<Rightarrow> bool" where
  "capital d = (65 \<le> (of_char d :: nat) \<and> (of_char d :: nat) \<le> 90)"


definition fails_with :: "env \<Rightarrow> apicheck \<Rightarrow> json \<Rightarrow> world \<Rightarrow> string \<Rightarrow> bool" where
  "fails_with env a test w msg =
     (\<exists>n t w'. run_case env test a w = (Inr (with_failed a (failed_result n t msg)), w'))"

text \<open>
  What the first \<^verbatim>\<open>try\<close> block of \<^verbatim>\<open>__run_test\<close> yields for a case: the decoded body of the
  response, or an exception.
\<close>

definition response_to :: "env \<Rightarrow> apicheck \<Rightarrow> json \<Rightarrow> world \<Rightarrow> exn + json" where
  "response_to env a test w = fst (get_response env (base_url a) test (snd (time env w)))"

text \<open>The response has the key, with a value that \<^verbatim>\<open>==\<close> finds equal to the expected one.\<close>

definition agrees :: "(string \<times> json) list \<Rightarrow> (string \<times> json) list \<Rightarrow> string \<Rightarrow> bool" where
  "agrees ev r k =
     (case map_of ev k of
        None \<Rightarrow> False
      | Some v \<Rightarrow> (case map_of r k of None \<Rightarrow> False | Some x \<Rightarrow> py_eq v x))"

text \<open>The class that a tag of \<^verbatim>\<open>expected_response_types\<close> stands for.\<close>

fun class_of_tag :: "json \<Rightarrow> pytype option" where
  "class_of_tag (JStr s) =
     (if s = ''string'' then Some StrT else if s = ''int'' then Some IntT
      else if s = ''float'' then Some FloatT else None)"
| "class_of_tag v = None"

text \<open>
  The comparison as the specification words it, to be set against \<open>py_eq\<close>: deep,
  structural equality of JSON values, numbers compared by value, strings by content,
  the members of an object in any order.
\<close>

fun json_number :: "json \<Rightarrow> rat option" where
  "json_number (JInt i) = Some (of_int i)"
| "json_number (JFloat r) = Some r"
| "json_number v = None"

function json_equal :: "json \<Rightarrow> json \<Rightarrow> bool" where
  "json_equal (JArr xs) b = (case b of JArr ys \<Rightarrow> list_all2 json_equal xs ys | _ \<Rightarrow> False)"
| "json_equal (JObj a) b =
     (case b of
        JObj m \<Rightarrow>
          length a = length m \<and>
          list_all (\<lambda>kv. case map_of m (fst kv) of
                            None \<Rightarrow> False
                          | Some w \<Rightarrow> json_equal (snd kv) w) a
      | _ \<Rightarrow> False)"
| "json_equal (JStr s) b = (b = JStr s)"
| "json_equal JNull b = (b = JNull)"
| "json_equal (JBool c) b = (b = JBool c)"
| "json_equal (JInt i) b = (json_number b = Some (of_int i))"
| "json_equal (JFloat r) b = (json_number b = Some r)"
  by pat_completeness auto
termination
proof (relation "measure (\<lambda>(a, b). size a)")
  show "wf (measure (\<lambda>(a, b). size a))" by simp
next
  fix xs ys :: "json list" and x y b :: json
  assume "x \<in> set xs"
  then have "size x < Suc (size_list size xs)"
    by (induction xs) auto
  then show "((x, y), (JArr xs, b)) \<in> measure (\<lambda>(a, b). size a)" by simp
next
  fix a m :: "(string \<times> json) list" and kv :: "string \<times> json" and w b :: json
  assume "kv \<in> set a"
  then have "size (snd kv) < Suc (size_list (size_prod (\<lambda>x. 0) size) a)"
    by (induction a) (auto simp: less_Suc_eq)
  then show "((snd kv, w), (JObj a, b)) \<in> measure (\<lambda>(a, b). size a)"
    by simp
qed






text \<open>The exceptions that the handlers of the first \<^verbatim>\<open>try\<close> block catch or pass as a failed test.\<close>

fun caught :: "exn \<Rightarrow> bool" where
  "caught (KeyError k) = True"
| "caught ValueError = True"
| "caught (TestFailedException m) = True"
| "caught e = False"

definition mild :: "exn + 'a \<Rightarrow> bool" where
  "mild r = (case r of Inl e \<Rightarrow> caught e | Inr x \<Rightarrow> True)"


text \<open>The second try block raises nothing but what its handler turns into a failed test.\<close>

definition tame :: "exn + unit \<Rightarrow> bool" where
  "tame r = (case r of Inl e \<Rightarrow> (\<exists>k. e = KeyError k) \<or> (\<exists>m. e = TestFailedException m) | Inr u \<Rightarrow> True)"

text \<open>The body that a POST of the case carries.\<close>

definition body_of :: "(string \<times> json) list \<Rightarrow> json option" where
  "body_of t = (case map_of t ''payload'' of None \<Rightarrow> None | Some p \<Rightarrow> json_body p)"

subsection \<open>Sample data\<close>

text \<open>
  A stub environment: the clock shows the number of earlier readings, and the texts of
  Python's formatting and the upper case beyond ASCII are placeholders. The HTTP library refuses a URL without a scheme
  with a \<^verbatim>\<open>ValueError\<close> (\<^verbatim>\<open>MissingSchema\<close>), as \<^verbatim>\<open>requests\<close> does; the server gives the same
  answer to every other request.
\<close>

fun url_of :: "request \<Rightarrow> json" where
  "url_of (Get url) = url"
| "url_of (Post url body) = url"

fun has_scheme :: "json \<Rightarrow> bool" where
  "has_scheme (JStr s) = (take 7 s = ''http://'' \<or> take 8 s = ''https://'')"
| "has_scheme v = False"

definition stub_env :: "reply \<Rightarrow> env" where
  "stub_env answer =
     \<lparr>clock = (\<lambda>k. of_nat k),
      server = (\<lambda>k rq. if has_scheme (url_of rq) then answer else Raises ValueError),
      repr = (\<lambda>v. ''<repr>''), unicode_upper = (\<lambda>s. s),
      fmt_float = (\<lambda>d r. ''<float>''), round_float = (\<lambda>d r. r), dumps = (\<lambda>v. ''<json>'')\<rparr>"

definition answers :: "(string \<times> json) list \<Rightarrow> env" where
  "answers body = stub_env (Response (Some (JObj body)))"

definition suite :: "json list \<Rightarrow> apicheck" where
  "suite ts =
     \<lparr>base_url = ''http://api'', tests = JArr ts, passed = 0, failed = 0,
      total_elapsed_time = 0, results = []\<rparr>"

definition w0 :: world where
  "w0 = \<lparr>now = 0, sent = []\<rparr>"

definition s0 :: io where
  "s0 = \<lparr>outstream = [], stdout = []\<rparr>"

text \<open>The case \<^verbatim>\<open>{"name": "t1", "url": "/x", "method": m, ...}\<close>.\<close>

definition test_case :: "string \<Rightarrow> (string \<times> json) list \<Rightarrow> json" where
  "test_case m extra =
     JObj ([(''name'', JStr ''t1''), (''url'', JStr ''/x''), (''method'', JStr m)] @ extra)"

definition two_cases :: "json list" where
  "two_cases = [test_case ''GET'' [], test_case ''PUT'' []]"

text \<open>
  For the older copy, which has no base URL: an object with the empty base URL, and the
  case \<^verbatim>\<open>{"name": "t1", "url": "http://api/x", "method": "GET", ...}\<close>.
\<close>

definition legacy_suite :: "json list \<Rightarrow> apicheck" where
  "legacy_suite ts = (suite ts)\<lparr>base_url := []\<rparr>"

definition absolute_case :: "(string \<times> json) list \<Rightarrow> json" where
  "absolute_case extra =
     JObj ([(''name'', JStr ''t1''), (''url'', JStr ''http://api/x''), (''method'', JStr ''GET'')]
           @ extra)"

text \<open>Cases with expected values, and with expected types.\<close>

definition expects_values :: "(string \<times> json) list \<Rightarrow> json" where
  "expects_values ev = test_case ''GET'' [(''expected_response_values'', JObj ev)]"

definition expects_types :: "(string \<times> json) list \<Rightarrow> json" where
  "expects_types et = test_case ''GET'' [(''expected_response_types'', JObj et)]"

lemmas engine_defs =
  bind_def index_def upper_char_def ascii_def upper_text_def str_class_def show_int_def time_def
  http_def quoted_def
  dispatch_def build_request_def call_def get_response_def value_error_message_def
  expected_values_def get_expected_type_error_message_def test_expected_type_def
  malformed_type_message_def check_type_def expected_types_def run_checks_def checked_def
  run_test_def test_name_def record_result_def run_case_def finish_def run_all_tests_def

lemmas legacy_defs =
  build_request_legacy_def test_expected_type_legacy_def malformed_type_message_legacy_def
  check_type_legacy_def expected_types_legacy_def run_checks_legacy_def run_test_legacy_def
  run_case_legacy_def run_all_tests_legacy_def

lemmas sample_defs =
  stub_env_def answers_def suite_def w0_def s0_def test_case_def passed_result_def
  failed_result_def with_passed_def with_failed_def two_cases_def legacy_suite_def
  absolute_case_def

lemmas check_defs = engine_defs sample_defs response_to_def expects_values_def expects_types_def

section \<open>The reporter completes on the results of a run\<close>

lemma write_results_complete:
  "has_messages rs \<Longrightarrow> \<exists>out'. write_results env rs out = (None, out')"
proof (induction rs arbitrary: out)
  case Nil
  show ?case by simp
next
  case (Cons r rs)
  from Cons.prems have rest: "has_messages rs" and r: "status r = PASSED \<or> error_msg r \<noteq> None"
    by (simp_all add: has_messages_def)
  show ?case
  proof (cases "status r = FAILED")
    case True
    with r obtain m where "error_msg r = Some m" by auto
    with True Cons.IH [OF rest] show ?thesis by (simp add: Let_def)
  next
    case False
    with Cons.IH [OF rest] show ?thesis by (simp add: Let_def)
  qed
qed

lemma render_complete:
  assumes "has_messages (results a)"
  shows "\<exists>out. render env format p a s = (None, a, s\<lparr>outstream := out\<rparr>)"
proof -
  obtain out' where wr:
    "write_results env (results a) (outstream s @ summary_text env p a) = (None, out')"
    using write_results_complete [OF assms] by blast
  show ?thesis
  proof (cases "upper_text env format = ''JSON''")
    case True
    then have "render env format p a s =
        (None, a, s\<lparr>outstream := outstream s @ dumps env (res_json p a)\<rparr>)"
      by (simp add: render_def)
    then show ?thesis by (rule exI)
  next
    case False
    show ?thesis
    proof (cases "upper_text env format = ''TEXT''")
      case True
      with False wr have "render env format p a s = (None, a, s\<lparr>outstream := out'\<rparr>)"
        by (simp add: render_def)
      then show ?thesis by (rule exI)
    next
      case no: False
      with False have "render env format p a s = (None, a, s\<lparr>outstream := outstream s\<rparr>)"
        by (simp add: render_def)
      then show ?thesis by (rule exI)
    qed
  qed
qed

lemma render_object: "fst (snd (render env format p a s)) = a"
  by (simp add: render_def split: prod.splits option.splits exn.splits)

section \<open>One pass of the loop\<close>

lemma record_result_cases:
  assumes "record_result env nm test t0 r a w = (Inr a', w')"
  shows "(\<exists>n. r = Inr () \<and> getitem test (JStr ''name'') = Inr n \<and> w' = snd (time env w) \<and>
             a' = with_passed a (passed_result n (fst (time env w) - t0)))
       \<or> (\<exists>n msg. r = Inl (TestFailedException msg) \<and> nm test = Inr n \<and> w' = snd (time env w) \<and>
             a' = with_failed a (failed_result n (fst (time env w) - t0) msg))"
proof (cases r)
  case (Inr u)
  with assms show ?thesis
    by (auto simp: record_result_def with_passed_def passed_result_def
        split: sum.splits prod.splits)
next
  case (Inl e)
  with assms show ?thesis
    by (cases e)
       (auto simp: record_result_def with_failed_def failed_result_def
        split: sum.splits prod.splits)
qed

lemma record_result_has_messages:
  assumes "record_result env nm test t0 r a w = (Inr a', w')" and "has_messages (results a)"
  shows "has_messages (results a')"
  using record_result_cases [OF assms(1)] assms(2)
  by (auto simp: has_messages_def with_passed_def with_failed_def passed_result_def
      failed_result_def)

lemma run_case_unfold:
  "run_case env test a w =
     record_result env test_name test (fst (time env w))
       (fst (run_test env (base_url a) test (snd (time env w)))) a
       (snd (run_test env (base_url a) test (snd (time env w))))"
  by (simp add: run_case_def split: prod.splits)

lemma run_case_legacy_unfold:
  "run_case_legacy env test a w =
     record_result env (\<lambda>t. getitem t (JStr ''name'')) test (fst (time env w))
       (fst (run_test_legacy env test (snd (time env w)))) a
       (snd (run_test_legacy env test (snd (time env w))))"
  by (simp add: run_case_legacy_def split: prod.splits)

lemma record_result_extends:
  assumes "record_result env nm test t0 r a w = (Inr a', w')"
    and "nm = test_name \<or> nm = (\<lambda>t. getitem t (JStr ''name''))"
  shows "extends a test a'"
proof -
  from record_result_cases [OF assms(1)] show ?thesis
  proof (elim disjE exE conjE)
    fix n
    assume "getitem test (JStr ''name'') = Inr n"
      and "a' = with_passed a (passed_result n (fst (time env w) - t0))"
    then show ?thesis
      by (auto simp: extends_def with_passed_def passed_result_def test_name_def)
  next
    fix n msg
    assume "nm test = Inr n"
      and a': "a' = with_failed a (failed_result n (fst (time env w) - t0) msg)"
    with assms(2) have "test_name test = Inr n"
      by (auto simp: test_name_def)
    with a' show ?thesis
      by (auto simp: extends_def with_failed_def failed_result_def)
  qed
qed

lemma run_case_extends:
  assumes "run_case env test a w = (Inr a', w')"
  shows "extends a test a'"
  using assms record_result_extends [where nm = test_name] unfolding run_case_unfold by blast

lemma run_case_legacy_extends:
  assumes "run_case_legacy env test a w = (Inr a', w')"
  shows "extends a test a'"
  using assms record_result_extends [where nm = "\<lambda>t. getitem t (JStr ''name'')"]
  unfolding run_case_legacy_unfold by blast

lemma tally_Nil: "tally a [] a"
  by (simp add: tally_def has_messages_def)

lemma tally_Cons:
  assumes "extends a test a1" and "tally a1 ts a'"
  shows "tally a (test # ts) a'"
proof -
  from assms(1) obtain r where r:
    "results a1 = results a @ [r]" "test_name test = Inr (name r)"
    "status r = PASSED \<or> error_msg r \<noteq> None"
    "passed a1 = passed a + (if status r = PASSED then 1 else 0)"
    "failed a1 = failed a + (if status r = FAILED then 1 else 0)"
    unfolding extends_def by blast
  from assms(2) obtain rs where rs:
    "results a' = results a1 @ rs" "map (\<lambda>r. Inr (name r)) rs = map test_name ts"
    "has_messages rs"
    "passed a' = passed a1 + length (filter (\<lambda>r. status r = PASSED) rs)"
    "failed a' = failed a1 + length (filter (\<lambda>r. status r = FAILED) rs)"
    unfolding tally_def by blast
  have "results a' = results a @ (r # rs)" using r(1) rs(1) by simp
  moreover have "map (\<lambda>r. Inr (name r)) (r # rs) = map test_name (test # ts)"
    using r(2) rs(2) by simp
  moreover have "has_messages (r # rs)" using r(3) rs(3) by (simp add: has_messages_def)
  moreover have "passed a' = passed a + length (filter (\<lambda>r. status r = PASSED) (r # rs))"
    using r(4) rs(4) by simp
  moreover have "failed a' = failed a + length (filter (\<lambda>r. status r = FAILED) (r # rs))"
    using r(5) rs(5) by simp
  ultimately show ?thesis unfolding tally_def by blast
qed

lemma run_loop_tally: "run_loop env ts a w = (None, a', w') \<Longrightarrow> tally a ts a'"
proof (induction ts arbitrary: a w)
  case Nil
  then show ?case by (simp add: tally_Nil)
next
  case (Cons test ts)
  from Cons.prems obtain a1 w1 where
    step: "run_case env test a w = (Inr a1, w1)" and rest: "run_loop env ts a1 w1 = (None, a', w')"
    by (auto split: prod.splits sum.splits)
  show ?case
    by (rule tally_Cons [OF run_case_extends [OF step] Cons.IH [OF rest]])
qed

lemma run_loop_legacy_tally: "run_loop_legacy env ts a w = (None, a', w') \<Longrightarrow> tally a ts a'"
proof (induction ts arbitrary: a w)
  case Nil
  then show ?case by (simp add: tally_Nil)
next
  case (Cons test ts)
  from Cons.prems obtain a1 w1 where
    step: "run_case_legacy env test a w = (Inr a1, w1)"
    and rest: "run_loop_legacy env ts a1 w1 = (None, a', w')"
    by (auto split: prod.splits sum.splits)
  show ?case
    by (rule tally_Cons [OF run_case_legacy_extends [OF step] Cons.IH [OF rest]])
qed

section \<open>A completed run\<close>

lemma run_all_tests_unfold:
  "run_all_tests env a w =
     (case iter (tests a) of
        Inl e \<Rightarrow> (Some e, reset a, snd (time env w))
      | Inr ts \<Rightarrow> finish env (fst (time env w)) (run_loop env ts (reset a) (snd (time env w))))"
  by (simp add: run_all_tests_def reset_def Let_def case_prod_beta split: sum.splits)

lemma run_all_tests_legacy_unfold:
  "run_all_tests_legacy env a w =
     (case iter (tests a) of
        Inl e \<Rightarrow> (Some e, reset a, snd (time env w))
      | Inr ts \<Rightarrow>
          finish env (fst (time env w)) (run_loop_legacy env ts (reset a) (snd (time env w))))"
  by (simp add: run_all_tests_legacy_def reset_def Let_def case_prod_beta split: sum.splits)

lemma finish_None:
  assumes "finish env t0 r = (None, a', w')"
  shows "\<exists>a2 w2. r = (None, a2, w2) \<and> a' = a2\<lparr>total_elapsed_time := clock env (now w2) - t0\<rparr>
           \<and> w' = w2\<lparr>now := Suc (now w2)\<rparr>"
proof -
  obtain e a2 w2 where r: "r = (e, a2, w2)" by (cases r) auto
  with assms have "e = None" by (cases e) (auto simp: finish_def)
  with assms r show ?thesis by (auto simp: finish_def time_def)
qed

lemma tally_total:
  "tally a ts a2 \<Longrightarrow> tally a ts (a2\<lparr>total_elapsed_time := t\<rparr>)"
  by (simp add: tally_def)

lemma run_all_tests_tally:
  assumes "run_all_tests env a w = (None, a', w')" and "iter (tests a) = Inr ts"
  shows "tally (reset a) ts a'"
    and "total_elapsed_time a' = clock env (now w' - 1) - clock env (now w)"
proof -
  from assms have "finish env (fst (time env w)) (run_loop env ts (reset a) (snd (time env w)))
      = (None, a', w')"
    by (simp add: run_all_tests_unfold)
  from finish_None [OF this] obtain a2 w2 where
    loop: "run_loop env ts (reset a) (snd (time env w)) = (None, a2, w2)"
    and a': "a' = a2\<lparr>total_elapsed_time := clock env (now w2) - fst (time env w)\<rparr>"
    and w': "w' = w2\<lparr>now := Suc (now w2)\<rparr>"
    by blast
  from run_loop_tally [OF loop] a' show "tally (reset a) ts a'"
    by (simp add: tally_total)
  from a' w' show "total_elapsed_time a' = clock env (now w' - 1) - clock env (now w)"
    by (simp add: time_def)
qed

lemma run_all_tests_legacy_tally:
  assumes "run_all_tests_legacy env a w = (None, a', w')" and "iter (tests a) = Inr ts"
  shows "tally (reset a) ts a'"
    and "total_elapsed_time a' = clock env (now w' - 1) - clock env (now w)"
proof -
  from assms have
    "finish env (fst (time env w)) (run_loop_legacy env ts (reset a) (snd (time env w)))
      = (None, a', w')"
    by (simp add: run_all_tests_legacy_unfold)
  from finish_None [OF this] obtain a2 w2 where
    loop: "run_loop_legacy env ts (reset a) (snd (time env w)) = (None, a2, w2)"
    and a': "a' = a2\<lparr>total_elapsed_time := clock env (now w2) - fst (time env w)\<rparr>"
    and w': "w' = w2\<lparr>now := Suc (now w2)\<rparr>"
    by blast
  from run_loop_legacy_tally [OF loop] a' show "tally (reset a) ts a'"
    by (simp add: tally_total)
  from a' w' show "total_elapsed_time a' = clock env (now w' - 1) - clock env (now w)"
    by (simp add: time_def)
qed

lemma tally_reset:
  assumes "tally (reset a) ts a'"
  shows "length (results a') = length ts"
    and "map (\<lambda>r. Inr (name r)) (results a') = map test_name ts"
    and "passed a' = length (filter (\<lambda>r. status r = PASSED) (results a'))"
    and "failed a' = length (filter (\<lambda>r. status r = FAILED) (results a'))"
    and "passed a' + failed a' = length ts"
    and "has_messages (results a')"
proof -
  from assms obtain rs where rs:
    "results a' = rs" "map (\<lambda>r. Inr (name r)) rs = map test_name ts" "has_messages rs"
    "passed a' = length (filter (\<lambda>r. status r = PASSED) rs)"
    "failed a' = length (filter (\<lambda>r. status r = FAILED) rs)"
    unfolding tally_def reset_def by auto
  from rs(2) have len: "length rs = length ts" by (rule map_eq_imp_length_eq)
  have "length (filter (\<lambda>r. status r = PASSED) rs) + length (filter (\<lambda>r. status r = FAILED) rs)
        = length rs"
  proof (induction rs)
    case Nil
    show ?case by simp
  next
    case (Cons r rs)
    then show ?case by (cases "status r") simp_all
  qed
  with rs len show "length (results a') = length ts"
    and "map (\<lambda>r. Inr (name r)) (results a') = map test_name ts"
    and "passed a' = length (filter (\<lambda>r. status r = PASSED) (results a'))"
    and "failed a' = length (filter (\<lambda>r. status r = FAILED) (results a'))"
    and "passed a' + failed a' = length ts"
    and "has_messages (results a')"
    by simp_all
qed

lemma reset_previous:
  "reset (a\<lparr>passed := p, failed := f, results := rs\<rparr>) = reset a"
  by (simp add: reset_def)

lemma run_all_tests_previous:
  "run_all_tests env (a\<lparr>passed := p, failed := f, results := rs\<rparr>) w = run_all_tests env a w"
  by (simp add: run_all_tests_unfold reset_previous split: sum.splits)

lemma run_all_tests_legacy_previous:
  "run_all_tests_legacy env (a\<lparr>passed := p, failed := f, results := rs\<rparr>) w
     = run_all_tests_legacy env a w"
  by (simp add: run_all_tests_legacy_unfold reset_previous split: sum.splits)

lemma sample_run_completes:
  "fst (run_all_tests (answers []) (suite two_cases) w0) = None"
  by (simp add: engine_defs sample_defs)

lemma sample_run:
  "run_all_tests (answers []) (suite two_cases) w0 =
     (None, fst (snd (run_all_tests (answers []) (suite two_cases) w0)),
            snd (snd (run_all_tests (answers []) (suite two_cases) w0)))"
  using sample_run_completes by (metis prod.collapse)

section \<open>The counters of a run\<close>

text \<open>
  Claim C3: when a run over a list of N cases completes, passed + failed is N, there
  are N results in the order of the cases (each under the name of its case, or the
  sentinel), passed and failed count the results of either status, the total time is
  the span between this run's first and last reading of the clock, and the counters and
  results that the object held before the run have no influence on it. This holds of the
  module and of the older copy.
\<close>

theorem run_all_tests_counts:
  assumes "tests a = JArr ts"
    and "run_all_tests env a w = (None, a', w') \<or> run_all_tests_legacy env a w = (None, a', w')"
  shows "passed a' + failed a' = length ts
       \<and> length (results a') = length ts
       \<and> map (\<lambda>r. Inr (name r)) (results a') = map test_name ts
       \<and> passed a' = length (filter (\<lambda>r. status r = PASSED) (results a'))
       \<and> failed a' = length (filter (\<lambda>r. status r = FAILED) (results a'))
       \<and> total_elapsed_time a' = clock env (now w' - 1) - clock env (now w)
       \<and> run_all_tests env (a\<lparr>passed := p, failed := f, results := rs\<rparr>) w
           = run_all_tests env a w
       \<and> run_all_tests_legacy env (a\<lparr>passed := p, failed := f, results := rs\<rparr>) w
           = run_all_tests_legacy env a w"
proof -
  from assms(1) have ts: "iter (tests a) = Inr ts" by simp
  from assms(2) ts have t: "tally (reset a) ts a'"
    using run_all_tests_tally(1) run_all_tests_legacy_tally(1) by blast
  from assms(2) ts have total: "total_elapsed_time a' = clock env (now w' - 1) - clock env (now w)"
    using run_all_tests_tally(2) run_all_tests_legacy_tally(2) by blast
  from tally_reset [OF t] total show ?thesis
    by (simp add: run_all_tests_previous run_all_tests_legacy_previous)
qed

theorem run_all_tests_counts_witness:
  "passed (fst (snd (run_all_tests (answers []) (suite two_cases) w0)))
     + failed (fst (snd (run_all_tests (answers []) (suite two_cases) w0))) = 2
   \<and> length (results (fst (snd (run_all_tests (answers []) (suite two_cases) w0)))) = 2"
proof -
  have "tests (suite two_cases) = JArr two_cases" by (simp add: suite_def)
  from run_all_tests_counts [OF this disjI1 [OF sample_run], where p = 0 and f = 0 and rs = "[]"]
  have "passed (fst (snd (run_all_tests (answers []) (suite two_cases) w0)))
          + failed (fst (snd (run_all_tests (answers []) (suite two_cases) w0)))
        = length two_cases"
    and "length (results (fst (snd (run_all_tests (answers []) (suite two_cases) w0))))
        = length two_cases"
    by blast+
  then show ?thesis by (simp add: two_cases_def)
qed

section \<open>The report\<close>

lemma success_percent_guarded:
  "success_percent a =
     (if passed a + failed a = 0 then 0
      else of_nat (passed a) / of_nat (passed a + failed a) * 100)"
  by (simp add: success_percent_def Let_def)

lemma output_results_json:
  "upper_text env format = ''JSON'' \<Longrightarrow>
     output_results env format a s =
       (None, a, s\<lparr>outstream := outstream s @ dumps env (res_json (success_percent a) a)\<rparr>)"
  by (simp add: output_results_def render_def)

lemma output_results_unknown_format:
  "upper_text env format \<noteq> ''JSON'' \<Longrightarrow> upper_text env format \<noteq> ''TEXT'' \<Longrightarrow>
     output_results env format a s = (None, a, s)"
  by (simp add: output_results_def render_def)

lemma output_results_legacy_unknown_format:
  "upper_text env format \<noteq> ''JSON'' \<Longrightarrow> upper_text env format \<noteq> ''TEXT'' \<Longrightarrow>
     0 < passed a + failed a \<Longrightarrow> output_results_legacy env format a s = (None, a, s)"
  by (simp add: output_results_legacy_def render_def)

lemma empty_suite_legacy:
  "run_all_tests_legacy env (suite []) w0 =
     (None, (suite [])\<lparr>total_elapsed_time := clock env 1 - clock env 0\<rparr>, \<lparr>now = 2, sent = []\<rparr>)"
  by (simp add: run_all_tests_legacy_def finish_def time_def suite_def w0_def)

text \<open>
  Claim C2: the reported success percentage is passed / (passed + failed) * 100, and a
  run with no case reports 0 without an exception. The module guards the divisor
  (\<open>success_percent_guarded\<close>, \<open>output_results_json\<close>). The older copy does not: after a
  run of the empty suite its reporter raises \<^verbatim>\<open>ZeroDivisionError\<close>, in both formats.
\<close>

theorem legacy_report_of_empty_suite_raises:
  "fst (output_results_legacy (answers []) ''json''
          (fst (snd (run_all_tests_legacy (answers []) (suite []) w0))) s0) = Some ZeroDivisionError
   \<and> fst (output_results_legacy (answers []) ''text''
          (fst (snd (run_all_tests_legacy (answers []) (suite []) w0))) s0) = Some ZeroDivisionError"
  unfolding empty_suite_legacy by (simp add: output_results_legacy_def suite_def)

text \<open>
  Claim C10: with a format that is neither json nor text in any casing, the reporter
  writes nothing and raises nothing. The module does so (\<open>output_results_unknown_format\<close>),
  and the older copy does once a case has run (\<open>output_results_legacy_unknown_format\<close>).
  After a run of the empty suite the older copy divides by zero before it looks at the
  format, and raises.
\<close>

theorem legacy_unknown_format_raises:
  "output_results_legacy (answers []) ''xml''
     (fst (snd (run_all_tests_legacy (answers []) (suite []) w0))) s0
   = (Some ZeroDivisionError, fst (snd (run_all_tests_legacy (answers []) (suite []) w0)), s0)"
  unfolding empty_suite_legacy by (simp add: output_results_legacy_def suite_def)

text \<open>
  Claim C9: rendering the results of a run, in any format, leaves the object as it was:
  the counters, the total time and the results. The module raises nothing and changes
  only the stream it writes to; the older copy returns the same object too, with
  the exception of claim C2 when no case has run.
\<close>

theorem rendering_leaves_the_run_unchanged:
  assumes "run_all_tests env a w = (None, a', w') \<or> run_all_tests_legacy env a w = (None, a', w')"
  shows "(\<exists>out. output_results env' format a' s = (None, a', s\<lparr>outstream := out\<rparr>))
       \<and> (\<exists>e out. output_results_legacy env' format a' s = (e, a', s\<lparr>outstream := out\<rparr>))"
proof -
  obtain ts where ts: "iter (tests a) = Inr ts"
    using assms
    by (cases "iter (tests a)")
       (auto simp: run_all_tests_unfold run_all_tests_legacy_unfold)
  from assms ts have "tally (reset a) ts a'"
    using run_all_tests_tally(1) run_all_tests_legacy_tally(1) by blast
  then have msgs: "has_messages (results a')"
    by (rule tally_reset(6))
  have first: "\<exists>out. output_results env' format a' s = (None, a', s\<lparr>outstream := out\<rparr>)"
    unfolding output_results_def by (rule render_complete [OF msgs])
  have second: "\<exists>e out. output_results_legacy env' format a' s = (e, a', s\<lparr>outstream := out\<rparr>)"
  proof (cases "passed a' + failed a' = 0")
    case True
    then have "output_results_legacy env' format a' s
        = (Some ZeroDivisionError, a', s\<lparr>outstream := outstream s\<rparr>)"
      by (simp add: output_results_legacy_def)
    then show ?thesis by blast
  next
    case False
    obtain out where "render env' format
        (of_nat (passed a') / of_nat (passed a' + failed a') * 100) a' s
          = (None, a', s\<lparr>outstream := out\<rparr>)"
      using render_complete [OF msgs] by blast
    with False have "output_results_legacy env' format a' s = (None, a', s\<lparr>outstream := out\<rparr>)"
      by (simp only: output_results_legacy_def if_False)
    then show ?thesis by blast
  qed
  from first second show ?thesis ..
qed

theorem rendering_leaves_the_run_unchanged_witness:
  "\<exists>out. output_results (answers []) ''text''
            (fst (snd (run_all_tests (answers []) (suite two_cases) w0))) s0
          = (None, fst (snd (run_all_tests (answers []) (suite two_cases) w0)),
             s0\<lparr>outstream := out\<rparr>)"
  using rendering_leaves_the_run_unchanged [OF disjI1 [OF sample_run], of "answers []" "''text''" s0]
  by blast

section \<open>A case without expectations\<close>






lemma record_result_failed:
  "nm test = Inr n \<Longrightarrow>
     record_result env nm test t0 (Inl (TestFailedException msg)) a w =
       (Inr (with_failed a (failed_result n (clock env (now w) - t0) msg)),
        w\<lparr>now := Suc (now w)\<rparr>)"
  by (simp add: record_result_def time_def with_failed_def failed_result_def)



lemma upper_char_capital:
  assumes "capital d"
  shows "upper_char c = d \<longleftrightarrow> same_letter c d"
proof (cases "97 \<le> (of_char c :: nat) \<and> (of_char c :: nat) \<le> 122")
  case True
  then have "upper_char c = char_of ((of_char c :: nat) - 32)"
    by (simp add: upper_char_def)
  moreover have "char_of ((of_char c :: nat) - 32) = d \<longleftrightarrow> (of_char c :: nat) - 32 = of_char d"
  proof
    assume "char_of ((of_char c :: nat) - 32) = d"
    then have "(of_char d :: nat) = ((of_char c :: nat) - 32) mod 256" by auto
    moreover from True have "(of_char c :: nat) - 32 < 256" by linarith
    ultimately show "(of_char c :: nat) - 32 = of_char d" by simp
  next
    assume "(of_char c :: nat) - 32 = of_char d"
    then show "char_of ((of_char c :: nat) - 32) = d" by simp
  qed
  moreover from True assms have "c \<noteq> d" by (auto simp: capital_def)
  ultimately show ?thesis using True by (auto simp: same_letter_def)
next
  case False
  then have "upper_char c = c" by (auto simp: upper_char_def)
  moreover from False have "(of_char c :: nat) \<noteq> of_char d + 32"
    using assms by (auto simp: capital_def)
  ultimately show ?thesis by (auto simp: same_letter_def)
qed

lemma upper_capitals:
  "list_all capital ds \<Longrightarrow> map upper_char m = ds \<longleftrightarrow> list_all2 same_letter m ds"
proof (induction ds arbitrary: m)
  case Nil
  show ?case by simp
next
  case (Cons d ds)
  then show ?case
    by (cases m) (simp_all add: upper_char_capital)
qed

lemma upper_GET:
  "list_all ascii m \<Longrightarrow> upper_text env m = ''GET'' \<longleftrightarrow> list_all2 same_letter m ''GET''"
  unfolding upper_text_def by (simp only: if_True) (rule upper_capitals, simp add: capital_def)

lemma upper_POST:
  "list_all ascii m \<Longrightarrow> upper_text env m = ''POST'' \<longleftrightarrow> list_all2 same_letter m ''POST''"
  unfolding upper_text_def by (simp only: if_True) (rule upper_capitals, simp add: capital_def)

section \<open>The request of a case\<close>

lemma dispatch_string:
  "dispatch env (JObj t) url (JStr m) =
     (if upper_text env m = ''GET'' then Inr (Get url)
      else if upper_text env m = ''POST'' then Inr (Post url (body_of t))
      else Inl (TestFailedException ''Malformed test. Allowed methods are GET and POST''))"
proof (cases "map_of t ''payload''")
  case None
  then have "''payload'' \<notin> fst ` set t" by (simp add: map_of_eq_None_iff)
  with None show ?thesis by (simp add: dispatch_def bind_def body_of_def)
next
  case (Some p)
  then have "''payload'' \<in> fst ` set t" by (metis map_of_eq_None_iff option.distinct(1))
  with Some show ?thesis by (simp add: dispatch_def bind_def body_of_def)
qed

lemma build_request_strings:
  assumes "map_of t ''name'' = Some n" and "map_of t ''url'' = Some (JStr u)"
    and "map_of t ''method'' = Some (JStr m)"
  shows "build_request env base (JObj t) = dispatch env (JObj t) (JStr (base @ u)) (JStr m)"
  using assms by (simp add: build_request_def bind_def)

lemma call_world:
  "snd (call env (Inr rq) w) = w\<lparr>sent := sent w @ [rq]\<rparr>"
  by (simp add: call_def http_def split: reply.splits option.splits)

lemma call_refused: "call env (Inl (TestFailedException msg)) w = (Inl (TestFailedException msg), w)"
  by (simp add: call_def)

lemma run_case_refused:
  assumes "build_request env (base_url a) test = Inl (TestFailedException msg)"
    and "test_name test = Inr n"
  shows "run_case env test a w =
           (Inr (with_failed a (failed_result n (clock env (Suc (now w)) - clock env (now w)) msg)),
            w\<lparr>now := now w + 2\<rparr>)"
proof -
  from assms(1) have "run_test env (base_url a) test (w\<lparr>now := Suc (now w)\<rparr>)
      = (Inl (TestFailedException msg), w\<lparr>now := Suc (now w)\<rparr>)"
    by (simp add: run_test_def get_response_def call_refused)
  then show ?thesis
    using record_result_failed [where nm = test_name, OF assms(2)]
    by (simp add: run_case_def time_def)
qed

text \<open>What the loop does after \<^verbatim>\<open>__run_test\<close> sends nothing.\<close>

lemma record_result_sent: "sent (snd (record_result env nm test t0 r a w)) = sent w"
proof (cases r)
  case (Inr u)
  then show ?thesis
    by (cases "getitem test (JStr ''name'')") (simp_all add: record_result_def time_def)
next
  case (Inl e)
  then show ?thesis
    by (cases e; cases "nm test") (simp_all add: record_result_def time_def)
qed

lemma run_test_world: "snd (run_test env base test w) = snd (get_response env base test w)"
  by (simp add: run_test_def split: prod.splits sum.splits)

lemma run_case_sent:
  assumes "build_request env (base_url a) test = Inr rq"
  shows "sent (snd (run_case env test a w)) = sent w @ [rq]"
proof -
  have "sent (snd (run_case env test a w))
      = sent (snd (run_test env (base_url a) test (snd (time env w))))"
    by (simp add: run_case_unfold record_result_sent)
  also have "\<dots> = sent (snd (call env (Inr rq) (snd (time env w))))"
    using assms by (simp add: run_test_world get_response_def)
  also have "\<dots> = sent w @ [rq]"
    by (simp add: call_world time_def)
  finally show ?thesis .
qed

text \<open>
  Claim C7 speaks of every test case and of any other method value. Three cases of the
  module show where it goes too far. A method that is not a string has no \<^verbatim>\<open>upper\<close>: the
  call raises \<^verbatim>\<open>AttributeError\<close>, which no handler catches, so the run ends with it and
  records nothing. A case without a name fails on the name, with the message about the
  missing key, before its method is looked at. A payload \<^verbatim>\<open>null\<close> is present in the case,
  yet the POST carries no body.
\<close>

theorem method_outside_the_strings:
  "fst (run_all_tests (answers [])
          (suite [JObj [(''name'', JStr ''t1''), (''url'', JStr ''/x''), (''method'', JInt 5)]]) w0)
     = Some AttributeError
   \<and> results (fst (snd (run_all_tests (answers [])
          (suite [JObj [(''name'', JStr ''t1''), (''url'', JStr ''/x''), (''method'', JInt 5)]])
          w0))) = []
   \<and> results (fst (snd (run_all_tests (answers [])
          (suite [JObj [(''url'', JStr ''/x''), (''method'', JStr ''PUT'')]]) w0)))
     = [failed_result (JStr ''ERROR: NAME NOT PROVIDED'') 1
          (''Malformed test. Must provide '' @ [CHR 0x27] @ ''name'' @ [CHR 0x27] @ '' in tests file.'')]
   \<and> sent (snd (snd (run_all_tests (answers [])
          (suite [test_case ''POST'' [(''payload'', JNull)]]) w0)))
     = [Post (JStr ''http://api/x'') None]"
  by (simp add: engine_defs sample_defs)

text \<open>
  Claim C7, as amended: for a case with a name and with strings as url and method, the
  method is compared with GET and POST after \<^verbatim>\<open>upper()\<close>, which for a method of ASCII
  characters is comparison up to the case of the letters. On GET the loop calls the HTTP
  library once, with a GET without body on the base URL followed by the url of the case,
  nothing inserted or removed; on POST it calls it once with a POST on that URL, with the
  payload of the case as JSON body when the case has a payload other than \<^verbatim>\<open>null\<close>, and
  without body otherwise; on any other method string it calls nothing and records the
  case as FAILED with the message that the allowed methods are GET and POST.
\<close>

theorem request_of_case:
  assumes "map_of t ''name'' = Some n" and "map_of t ''url'' = Some (JStr u)"
    and "map_of t ''method'' = Some (JStr m)"
  shows "(upper_text env m = ''GET'' \<longrightarrow>
            sent (snd (run_case env (JObj t) a w)) = sent w @ [Get (JStr (base_url a @ u))])
       \<and> (upper_text env m = ''POST'' \<longrightarrow>
            sent (snd (run_case env (JObj t) a w))
              = sent w @ [Post (JStr (base_url a @ u)) (body_of t)])
       \<and> (upper_text env m \<noteq> ''GET'' \<and> upper_text env m \<noteq> ''POST'' \<longrightarrow>
            run_case env (JObj t) a w =
              (Inr (with_failed a
                      (failed_result n (clock env (Suc (now w)) - clock env (now w))
                         ''Malformed test. Allowed methods are GET and POST'')),
               w\<lparr>now := now w + 2\<rparr>))
       \<and> (list_all ascii m \<longrightarrow>
            (upper_text env m = ''GET'') = list_all2 same_letter m ''GET''
            \<and> (upper_text env m = ''POST'') = list_all2 same_letter m ''POST'')
       \<and> (map_of t ''payload'' = None \<or> map_of t ''payload'' = Some JNull \<longrightarrow> body_of t = None)
       \<and> (\<forall>p. map_of t ''payload'' = Some p \<and> p \<noteq> JNull \<longrightarrow> body_of t = Some p)"
proof -
  have b: "build_request env (base_url a) (JObj t) =
      (if upper_text env m = ''GET'' then Inr (Get (JStr (base_url a @ u)))
       else if upper_text env m = ''POST''
       then Inr (Post (JStr (base_url a @ u)) (body_of t))
       else Inl (TestFailedException ''Malformed test. Allowed methods are GET and POST''))"
    using build_request_strings [OF assms] by (simp add: dispatch_string)
  have name: "test_name (JObj t) = Inr n"
    using assms(1) by (simp add: test_name_def)
  have get: "sent (snd (run_case env (JObj t) a w)) = sent w @ [Get (JStr (base_url a @ u))]"
    if "upper_text env m = ''GET''"
  proof (rule run_case_sent)
    from b that show "build_request env (base_url a) (JObj t) = Inr (Get (JStr (base_url a @ u)))"
      by simp
  qed
  have post: "sent (snd (run_case env (JObj t) a w))
      = sent w @ [Post (JStr (base_url a @ u)) (body_of t)]"
    if "upper_text env m = ''POST''"
  proof (rule run_case_sent)
    from b that show "build_request env (base_url a) (JObj t)
        = Inr (Post (JStr (base_url a @ u)) (body_of t))"
      by simp
  qed
  have other: "run_case env (JObj t) a w =
      (Inr (with_failed a
              (failed_result n (clock env (Suc (now w)) - clock env (now w))
                 ''Malformed test. Allowed methods are GET and POST'')),
       w\<lparr>now := now w + 2\<rparr>)"
    if "upper_text env m \<noteq> ''GET'' \<and> upper_text env m \<noteq> ''POST''"
  proof -
    from b that have "build_request env (base_url a) (JObj t)
        = Inl (TestFailedException ''Malformed test. Allowed methods are GET and POST'')"
      by simp
    from run_case_refused [OF this name] show ?thesis .
  qed
  have letters: "(upper_text env m = ''GET'') = list_all2 same_letter m ''GET''
      \<and> (upper_text env m = ''POST'') = list_all2 same_letter m ''POST''"
    if "list_all ascii m"
    using upper_GET [OF that] upper_POST [OF that] by blast
  have none: "body_of t = None"
    if "map_of t ''payload'' = None \<or> map_of t ''payload'' = Some JNull"
    using that by (auto simp: body_of_def)
  have some: "body_of t = Some p" if "map_of t ''payload'' = Some p \<and> p \<noteq> JNull" for p
    using that by (cases p) (simp_all add: body_of_def)
  from get post other letters none some show ?thesis by blast
qed

theorem request_of_case_witness:
  "sent (snd (run_case (answers []) (test_case ''PoSt'' [(''payload'', JInt 7)]) (suite []) w0))
     = [Post (JStr ''http://api/x'') (Some (JInt 7))]
   \<and> fst (run_case (answers []) (test_case ''PUT'' []) (suite []) w0)
     = Inr (with_failed (suite [])
         (failed_result (JStr ''t1'') 1 ''Malformed test. Allowed methods are GET and POST''))"
proof -
  have p: "list_all ascii ''PoSt'' \<and> list_all2 same_letter ''PoSt'' ''POST''"
    by (simp add: ascii_def same_letter_def)
  have q: "list_all ascii ''PUT'' \<and> \<not> list_all2 same_letter ''PUT'' ''GET''
      \<and> \<not> list_all2 same_letter ''PUT'' ''POST''"
    by (simp add: ascii_def same_letter_def)
  from request_of_case [of "[(''name'', JStr ''t1''), (''url'', JStr ''/x''), (''method'', JStr ''PoSt''),
      (''payload'', JInt 7)]" "JStr ''t1''" "''/x''" "''PoSt''" "answers []" "suite []" w0] p
  have 1: "sent (snd (run_case (answers []) (test_case ''PoSt'' [(''payload'', JInt 7)]) (suite []) w0))
     = [Post (JStr ''http://api/x'') (Some (JInt 7))]"
    by (simp add: test_case_def suite_def w0_def body_of_def)
  from request_of_case [of "[(''name'', JStr ''t1''), (''url'', JStr ''/x''), (''method'', JStr ''PUT'')]"
      "JStr ''t1''" "''/x''" "''PUT''" "answers []" "suite []" w0] q
  have 2: "fst (run_case (answers []) (test_case ''PUT'' []) (suite []) w0)
     = Inr (with_failed (suite [])
         (failed_result (JStr ''t1'') 1 ''Malformed test. Allowed methods are GET and POST''))"
    by (simp add: test_case_def answers_def stub_env_def w0_def)
  from 1 2 show ?thesis ..
qed

section \<open>The checks of a case\<close>

lemma test_name_JObj: "\<exists>n. test_name (JObj t) = Inr n"
  by (cases "map_of t ''name''") (simp_all add: test_name_def)

lemma run_case_answered:
  assumes "response_to env a test w = Inr resp"
  shows "\<exists>w2. run_case env test a w =
           record_result env test_name test (clock env (now w))
             (checked env (run_checks env test resp)) a w2"
proof -
  obtain r w2 where g: "get_response env (base_url a) test (snd (time env w)) = (r, w2)"
    by (cases "get_response env (base_url a) test (snd (time env w))") auto
  with assms have "r = Inr resp" by (simp add: response_to_def)
  with g have "run_case env test a w =
      record_result env test_name test (clock env (now w))
        (checked env (run_checks env test resp)) a w2"
    by (simp add: run_case_def run_test_def time_def)
  then show ?thesis by blast
qed

lemma fails_withI:
  assumes "response_to env a (JObj t) w = Inr resp"
    and "run_checks env (JObj t) resp = Inl e"
    and "checks_handler env e = TestFailedException msg"
  shows "fails_with env a (JObj t) w msg"
proof -
  obtain n where n: "test_name (JObj t) = Inr n" using test_name_JObj by blast
  from run_case_answered [OF assms(1)] obtain w2 where
    "run_case env (JObj t) a w =
       record_result env test_name (JObj t) (clock env (now w))
         (checked env (run_checks env (JObj t) resp)) a w2" by blast
  with assms(2,3) have "run_case env (JObj t) a w =
      record_result env test_name (JObj t) (clock env (now w))
        (Inl (TestFailedException msg)) a w2"
    by (simp add: checked_def)
  with record_result_failed [where nm = test_name, OF n] show ?thesis
    unfolding fails_with_def by metis
qed

text \<open>The loops, one key at a time.\<close>

lemma check_values_append:
  "check_values env ev resp (xs @ ys) =
     (case check_values env ev resp xs of
        Inl e \<Rightarrow> Inl e
      | Inr u \<Rightarrow> check_values env ev resp ys)"
  by (induction xs) (simp_all split: sum.splits)

lemma check_types_append:
  "check_types env et resp (xs @ ys) =
     (case check_types env et resp xs of
        Inl e \<Rightarrow> Inl e
      | Inr u \<Rightarrow> check_types env et resp ys)"
  by (induction xs) (simp_all split: sum.splits)

lemma check_values_agree:
  "list_all (agrees ev r) ks \<Longrightarrow> check_values env (JObj ev) (JObj r) (map JStr ks) = Inr ()"
  by (induction ks) (auto simp: agrees_def split: option.splits)

lemma check_values_first:
  assumes "list_all (agrees ev r) pre" and "map_of ev k = Some v"
  shows "check_values env (JObj ev) (JObj r) (map JStr (pre @ k # post)) =
           (case map_of r k of
              None \<Rightarrow> Inl (KeyError (JStr k))
            | Some x \<Rightarrow>
                if \<not> py_eq v x
                then Inl (TestFailedException (value_error_message env v (JStr k) x))
                else check_values env (JObj ev) (JObj r) (map JStr post))"
  using assms check_values_agree [OF assms(1), of env]
  by (simp add: check_values_append split: option.splits)

lemma check_types_first:
  assumes "check_types env (JObj et) (JObj r) (map JStr pre) = Inr ()" and "map_of et k = Some tag"
  shows "check_types env (JObj et) (JObj r) (map JStr (pre @ k # post)) =
           (case map_of r k of
              None \<Rightarrow> Inl (KeyError (JStr k))
            | Some v \<Rightarrow>
                (case check_type env (JStr k) tag v of
                   Inl e \<Rightarrow> Inl e
                 | Inr u \<Rightarrow> check_types env (JObj et) (JObj r) (map JStr post)))"
  using assms by (simp add: check_types_append split: option.splits)

lemma check_type_tag:
  "check_type env key tag v =
     (case class_of_tag tag of
        None \<Rightarrow> Inl (TestFailedException malformed_type_message)
      | Some c \<Rightarrow>
          if isinstance v c then Inr ()
          else Inl (TestFailedException (get_expected_type_error_message env key v c)))"
  by (cases tag) (simp_all add: check_type_def test_expected_type_def)

lemma iter_keys: "iter (JObj kvs) = Inr (map JStr (map fst kvs))"
  by (simp add: comp_def)

lemma expected_values_JObj:
  "map_of t ''expected_response_values'' = Some (JObj ev) \<Longrightarrow>
     expected_values env (JObj t) resp = check_values env (JObj ev) resp (map JStr (map fst ev))"
proof -
  assume a: "map_of t ''expected_response_values'' = Some (JObj ev)"
  then have "''expected_response_values'' \<in> fst ` set t"
    by (metis map_of_eq_None_iff option.distinct(1))
  with a show ?thesis by (simp add: expected_values_def bind_def comp_def)
qed

lemma expected_types_JObj:
  "map_of t ''expected_response_types'' = Some (JObj et) \<Longrightarrow>
     expected_types env (JObj t) resp = check_types env (JObj et) resp (map JStr (map fst et))"
proof -
  assume a: "map_of t ''expected_response_types'' = Some (JObj et)"
  then have "''expected_response_types'' \<in> fst ` set t"
    by (metis map_of_eq_None_iff option.distinct(1))
  with a show ?thesis by (simp add: expected_types_def bind_def comp_def)
qed

lemma key_not_found: "checks_handler env (KeyError (JStr k)) =
    TestFailedException (''Expected key '' @ quoted k @ '' not found.'')"
  by simp

lemma run_checks_values_fail:
  "expected_values env test resp = Inl e \<Longrightarrow> run_checks env test resp = Inl e"
  by (simp add: run_checks_def bind_def)

lemma run_checks_types:
  "expected_values env test resp = Inr () \<Longrightarrow>
     run_checks env test resp = expected_types env test resp"
  by (simp add: run_checks_def bind_def)

lemma show_int_digits: "show_int 1 = ''1''" "show_int 2 = ''2''"
  by code_simp+

lemma type_check_at_key:
  assumes "response_to env a (JObj t) w = Inr (JObj r)"
    and "expected_values env (JObj t) (JObj r) = Inr ()"
    and "map_of t ''expected_response_types'' = Some (JObj et)"
    and "map fst et = pre @ k # post"
    and "check_types env (JObj et) (JObj r) (map JStr pre) = Inr ()"
    and "map_of et k = Some tag"
  shows "map_of r k = None \<Longrightarrow>
           fails_with env a (JObj t) w (''Expected key '' @ quoted k @ '' not found.'')"
    and "map_of r k = Some v \<Longrightarrow>
           (case class_of_tag tag of
              None \<Rightarrow> fails_with env a (JObj t) w malformed_type_message
            | Some c \<Rightarrow>
                if isinstance v c
                then check_types env (JObj et) (JObj r) (map JStr (pre @ [k])) = Inr ()
                else fails_with env a (JObj t) w
                       (get_expected_type_error_message env (JStr k) v c))"
proof -
  have checks: "run_checks env (JObj t) (JObj r) =
      check_types env (JObj et) (JObj r) (map JStr (pre @ k # post))"
    using run_checks_types [OF assms(2)] expected_types_JObj [OF assms(3)] assms(4) by simp
  note first = check_types_first [OF assms(5,6)]
  show "fails_with env a (JObj t) w (''Expected key '' @ quoted k @ '' not found.'')"
    if "map_of r k = None"
  proof -
    from checks first [of post] that
    have "run_checks env (JObj t) (JObj r) = Inl (KeyError (JStr k))" by simp
    from fails_withI [OF assms(1) this key_not_found] show ?thesis .
  qed
  show "(case class_of_tag tag of
               None \<Rightarrow> fails_with env a (JObj t) w malformed_type_message
             | Some c \<Rightarrow>
                 if isinstance v c
                 then check_types env (JObj et) (JObj r) (map JStr (pre @ [k])) = Inr ()
                 else fails_with env a (JObj t) w
                        (get_expected_type_error_message env (JStr k) v c))"
    if v: "map_of r k = Some v"
  proof (cases "class_of_tag tag")
    case None
    with checks first [of post] v
    have "run_checks env (JObj t) (JObj r) = Inl (TestFailedException malformed_type_message)"
      by (simp add: check_type_tag)
    from fails_withI [OF assms(1) this] None show ?thesis by simp
  next
    case (Some c)
    show ?thesis
    proof (cases "isinstance v c")
      case True
      with Some first [of "[]"] v show ?thesis by (simp add: check_type_tag)
    next
      case False
      with Some checks first [of post] v
      have "run_checks env (JObj t) (JObj r)
          = Inl (TestFailedException (get_expected_type_error_message env (JStr k) v c))"
        by (simp add: check_type_tag)
      from fails_withI [OF assms(1) this] Some False show ?thesis by simp
    qed
  qed
qed

lemma isinstance_iff:
  "isinstance v StrT = (\<exists>s. v = JStr s)"
  "isinstance v IntT = ((\<exists>i. v = JInt i) \<or> (\<exists>b. v = JBool b))"
  "isinstance v FloatT = (\<exists>x. v = JFloat x)"
  by (cases v; simp)+

section \<open>Expected values\<close>

text \<open>
  Claim C6 says that the first key whose response value differs from the expected value
  makes the case FAILED, and that the comparison is deep structural JSON equality. The
  comparison is Python's \<^verbatim>\<open>==\<close>, for which \<^verbatim>\<open>True\<close> is the number 1: a case that expects 1 at
  a key passes on a response that holds true there, although the two JSON values differ.
\<close>

theorem true_passes_for_one:
  "fst (run_case (answers [(''ok'', JBool True)]) (expects_values [(''ok'', JInt 1)]) (suite []) w0)
     = Inr (with_passed (suite []) (passed_result (JStr ''t1'') 1))
   \<and> \<not> json_equal (JInt 1) (JBool True)"
  by (simp add: check_defs)

text \<open>
  Claim C6, as amended: the keys of \<^verbatim>\<open>expected_response_values\<close> are visited in their
  order, against a response that is a JSON object. The first key that is absent from the
  response, or whose value there is not equal to the expected one under Python's \<^verbatim>\<open>==\<close>
  (\<open>py_eq\<close>: deep, numbers by value, true and false as 1 and 0), makes the case FAILED:
  with the key-not-found message naming the key when it is absent, with the message naming
  the expected value, the key and the actual value when the values are unequal. The keys
  after it are not looked at.
\<close>

theorem first_unequal_value_fails:
  assumes "response_to env a (JObj t) w = Inr (JObj r)"
    and "map_of t ''expected_response_values'' = Some (JObj ev)"
    and "map fst ev = pre @ k # post"
    and "list_all (agrees ev r) pre"
    and "map_of ev k = Some v"
  shows "(map_of r k = None \<longrightarrow>
            fails_with env a (JObj t) w (''Expected key '' @ quoted k @ '' not found.''))
       \<and> (\<forall>x. map_of r k = Some x \<and> \<not> py_eq v x \<longrightarrow>
            fails_with env a (JObj t) w (value_error_message env v (JStr k) x))"
proof -
  have loop: "expected_values env (JObj t) (JObj r) =
      (case map_of r k of
         None \<Rightarrow> Inl (KeyError (JStr k))
       | Some x \<Rightarrow>
           if \<not> py_eq v x
           then Inl (TestFailedException (value_error_message env v (JStr k) x))
           else check_values env (JObj ev) (JObj r) (map JStr post))"
    using expected_values_JObj [OF assms(2)] check_values_first [OF assms(4,5)] assms(3)
    by simp
  have absent: "fails_with env a (JObj t) w (''Expected key '' @ quoted k @ '' not found.'')"
    if "map_of r k = None"
  proof -
    from loop that have "run_checks env (JObj t) (JObj r) = Inl (KeyError (JStr k))"
      by (simp add: run_checks_values_fail)
    from fails_withI [OF assms(1) this key_not_found] show ?thesis .
  qed
  have unequal: "fails_with env a (JObj t) w (value_error_message env v (JStr k) x)"
    if "map_of r k = Some x" and "\<not> py_eq v x" for x
  proof -
    from loop that have "run_checks env (JObj t) (JObj r)
        = Inl (TestFailedException (value_error_message env v (JStr k) x))"
      by (simp add: run_checks_values_fail)
    from fails_withI [OF assms(1) this] show ?thesis by simp
  qed
  from absent unequal show ?thesis by blast
qed

theorem first_unequal_value_fails_witness:
  "fails_with (answers [(''id'', JInt 2)]) (suite []) (expects_values [(''id'', JInt 1)]) w0
     (''Expected value '' @ quoted ''1'' @ '' at key '' @ quoted ''id'' @ '' but got ''
        @ quoted ''2'' @ ''.'')"
proof -
  have 1: "response_to (answers [(''id'', JInt 2)]) (suite [])
             (JObj [(''name'', JStr ''t1''), (''url'', JStr ''/x''), (''method'', JStr ''GET''),
                    (''expected_response_values'', JObj [(''id'', JInt 1)])]) w0
           = Inr (JObj [(''id'', JInt 2)])"
    by (simp add: check_defs)
  from first_unequal_value_fails [OF 1, of "[(''id'', JInt 1)]" "[]" "''id''" "[]" "JInt 1"]
  show ?thesis
    by (simp add: expects_values_def test_case_def value_error_message_def show_int_digits)
qed

section \<open>Expected types\<close>

text \<open>
  Claim C5 says that an unknown tag makes the case FAILED as a malformed test, and that a
  key absent from the response makes it FAILED with the key-not-found message. The
  module reads \<^verbatim>\<open>resp[key]\<close> before it looks at the tag: an unknown tag at an absent key
  gives the key-not-found message, not the one of a malformed test.
\<close>

theorem unknown_tag_at_absent_key:
  "fst (run_case (answers []) (expects_types [(''zz'', JStr ''bogus'')]) (suite []) w0)
     = Inr (with_failed (suite [])
         (failed_result (JStr ''t1'') 1 (''Expected key '' @ quoted ''zz'' @ '' not found.'')))
   \<and> ''Expected key '' @ quoted ''zz'' @ '' not found.'' \<noteq> malformed_type_message"
  by (simp add: check_defs)

text \<open>
  Claim C5, as amended: on a response that is a JSON object, once the value checks have
  passed, the keys of \<^verbatim>\<open>expected_response_types\<close> are visited in their order, and the
  first key that does not pass decides the message. A key absent from the response makes
  the case FAILED with the key-not-found message, whatever its tag. At a key that is
  present, a tag other than string, int and float makes the case FAILED as a malformed
  test; the tags string, int and float pass on a value of class \<^verbatim>\<open>str\<close>, \<^verbatim>\<open>int\<close> (which
  includes the booleans) and \<^verbatim>\<open>float\<close>, and on any other value make the case FAILED with the
  type-mismatch message.
\<close>

theorem first_failing_type_check:
  assumes "response_to env a (JObj t) w = Inr (JObj r)"
    and "expected_values env (JObj t) (JObj r) = Inr ()"
    and "map_of t ''expected_response_types'' = Some (JObj et)"
    and "map fst et = pre @ k # post"
    and "check_types env (JObj et) (JObj r) (map JStr pre) = Inr ()"
    and "map_of et k = Some tag"
  shows "(map_of r k = None \<longrightarrow>
            fails_with env a (JObj t) w (''Expected key '' @ quoted k @ '' not found.''))
       \<and> (\<forall>v. map_of r k = Some v \<longrightarrow>
            (case class_of_tag tag of
               None \<Rightarrow> fails_with env a (JObj t) w malformed_type_message
             | Some c \<Rightarrow>
                 if isinstance v c
                 then check_types env (JObj et) (JObj r) (map JStr (pre @ [k])) = Inr ()
                 else fails_with env a (JObj t) w
                        (get_expected_type_error_message env (JStr k) v c)))
       \<and> (\<forall>v. isinstance v StrT = (\<exists>s. v = JStr s)
              \<and> isinstance v IntT = ((\<exists>i. v = JInt i) \<or> (\<exists>b. v = JBool b))
              \<and> isinstance v FloatT = (\<exists>x. v = JFloat x))"
  using type_check_at_key [OF assms] by (simp add: isinstance_iff)

theorem first_failing_type_check_witness:
  "fails_with (answers [(''title'', JInt 5)]) (suite []) (expects_types [(''title'', JStr ''string'')]) w0
     (get_expected_type_error_message (answers [(''title'', JInt 5)]) (JStr ''title'') (JInt 5) StrT)"
proof -
  have 1: "response_to (answers [(''title'', JInt 5)]) (suite [])
             (JObj [(''name'', JStr ''t1''), (''url'', JStr ''/x''), (''method'', JStr ''GET''),
                    (''expected_response_types'', JObj [(''title'', JStr ''string'')])]) w0
           = Inr (JObj [(''title'', JInt 5)])"
    by (simp add: check_defs)
  have 2: "expected_values (answers [(''title'', JInt 5)])
             (JObj [(''name'', JStr ''t1''), (''url'', JStr ''/x''), (''method'', JStr ''GET''),
                    (''expected_response_types'', JObj [(''title'', JStr ''string'')])])
             (JObj [(''title'', JInt 5)]) = Inr ()"
    by (simp add: expected_values_def bind_def)
  from first_failing_type_check [OF 1 2, of "[(''title'', JStr ''string'')]" "[]" "''title''" "[]"
      "JStr ''string''"]
  show ?thesis
    by (simp add: expects_types_def test_case_def)
qed

section \<open>The tag int\<close>

text \<open>The tag int in the module: a boolean passes, a float fails.\<close>

lemma int_tag_in_module:
  assumes "response_to env a (JObj t) w = Inr (JObj r)"
    and "expected_values env (JObj t) (JObj r) = Inr ()"
    and "map_of t ''expected_response_types'' = Some (JObj et)"
    and "map fst et = pre @ k # post"
    and "check_types env (JObj et) (JObj r) (map JStr pre) = Inr ()"
    and "map_of et k = Some (JStr ''int'')"
  shows "map_of r k = Some (JBool b) \<Longrightarrow>
           check_types env (JObj et) (JObj r) (map JStr (pre @ [k])) = Inr ()"
    and "map_of r k = Some (JFloat x) \<Longrightarrow>
           fails_with env a (JObj t) w
             (''Invalid type at key '' @ quoted k @ ''. Expected '' @ quoted (''<class '' @ quoted ''int'' @ ''>'')
                @ '' got '' @ quoted (''<class '' @ quoted ''float'' @ ''>'') @ ''.'')"
  using type_check_at_key(2) [OF assms, of "JBool b"] type_check_at_key(2) [OF assms, of "JFloat x"]
  by (simp_all add: get_expected_type_error_message_def str_class_def quoted_def)

text \<open>
  Claim C4: under the tag int a boolean passes, and a float such as 3.14 makes the case
  FAILED with a message naming the key, the expected type and the actual type. The module
  does both (\<open>int_tag_in_module\<close>). The older copy has no base URL, so its cases give
  their URL in full. It builds the message with \<^verbatim>\<open>self.get_type_error_message\<close>, an
  attribute that does not exist (the method defined is \<^verbatim>\<open>__get_type_error_message\<close>): once
  the request for \<^verbatim>\<open>http://api/x\<close> is answered with \<^verbatim>\<open>{"pi": 3.14}\<close>, the run ends with
  \<^verbatim>\<open>AttributeError\<close> and records nothing. The module, given the same case and the empty
  base URL, completes and records the case as FAILED.
\<close>

theorem legacy_type_mismatch_escapes:
  "fst (run_all_tests_legacy (answers [(''pi'', JFloat (157 / 50))])
          (legacy_suite [absolute_case [(''expected_response_types'', JObj [(''pi'', JStr ''int'')])]])
          w0) = Some AttributeError
   \<and> sent (snd (snd (run_all_tests_legacy (answers [(''pi'', JFloat (157 / 50))])
          (legacy_suite [absolute_case [(''expected_response_types'', JObj [(''pi'', JStr ''int'')])]])
          w0))) = [Get (JStr ''http://api/x'')]
   \<and> fst (run_all_tests (answers [(''pi'', JFloat (157 / 50))])
          (legacy_suite [absolute_case [(''expected_response_types'', JObj [(''pi'', JStr ''int'')])]])
          w0) = None
   \<and> map status (results (fst (snd (run_all_tests (answers [(''pi'', JFloat (157 / 50))])
          (legacy_suite [absolute_case [(''expected_response_types'', JObj [(''pi'', JStr ''int'')])]])
          w0)))) = [FAILED]
   \<and> results (fst (snd (run_all_tests_legacy (answers [(''pi'', JFloat (157 / 50))])
          (legacy_suite [absolute_case [(''expected_response_types'', JObj [(''pi'', JStr ''int'')])]])
          w0))) = []"
  by (simp add: check_defs legacy_defs)

section \<open>Errors of a single case\<close>

lemma mild_simps [simp]: "mild (Inr x)" "mild (Inl (KeyError k))" "mild (Inl (TestFailedException m))"
  by (simp_all add: mild_def)

lemma getitem_mild: "mild (getitem (JObj t) (JStr k))"
  by (cases "map_of t k") simp_all




lemma checks_handler_caught:
  "caught e \<Longrightarrow> e \<noteq> ValueError \<Longrightarrow> \<exists>m. checks_handler env e = TestFailedException m"
  by (cases e) simp_all


lemma tame_simps [simp]: "tame (Inr u)" "tame (Inl (KeyError k))" "tame (Inl (TestFailedException m))"
  by (simp_all add: tame_def)



















end
